theory Spec2Isabelle
  imports Complex_Main "HOL-Library.AList"
begin

section \<open>Python values, exceptions and the published-stats store\<close>

text \<open>
  The module \<^verbatim>\<open>timeseries/stats_task.py\<close> is a set of coroutines that read the host bot
  and write counters into \<^verbatim>\<open>bot.stats\<close>. Every exception the source can raise in the
  places modelled here is a value of \<open>py_error\<close>; the exceptions of the HTTP client are
  the two that \<^verbatim>\<open>get_votes\<close> suppresses and two that it does not.
\<close>

datatype py_error =
    KeyError | TypeError | AttributeError | ValueError | OverflowError
  | ZeroDivisionError
  | ServerTimeoutError | TimeoutError | ClientConnectionError | JSONDecodeError
  | HostError

text \<open>
  Records read from the host's configuration (bank accounts, adventure save records) are
  nested dictionaries. A dictionary is an association list in insertion order;
  \<open>AList.update\<close> is Python's \<^verbatim>\<open>d[k] = v\<close> (replace in place, or append).
\<close>

datatype jval = JInt int | JStr string | JDict "(string \<times> jval) list"

type_synonym pydict = "(string \<times> jval) list"

text \<open>
  A float is either a finite number, an infinity or a NaN. Finite floats are idealised as
  rationals: rounding of the floating-point operations themselves is not modelled.
\<close>

datatype pyfloat = Finite rat | Infinity | NaN

text \<open>\<^verbatim>\<open>int(x)\<close> on a float truncates towards zero; it raises on infinities and NaN.\<close>

definition py_int :: "pyfloat \<Rightarrow> py_error + int" where
  "py_int x = (case x of
       Finite r \<Rightarrow> Inr (if 0 \<le> r then \<lfloor>r\<rfloor> else \<lceil>r\<rceil>)
     | Infinity \<Rightarrow> Inl OverflowError
     | NaN \<Rightarrow> Inl ValueError)"

text \<open>\<^verbatim>\<open>round(x)\<close> on a float: nearest integer, ties to even; raises as \<^verbatim>\<open>int\<close> does.\<close>

definition py_round :: "pyfloat \<Rightarrow> py_error + int" where
  "py_round x = (case x of
       Finite r \<Rightarrow>
         (let f = \<lfloor>r\<rfloor>; d = r - of_int f
          in Inr (if d < 1 / 2 then f else if 1 / 2 < d then f + 1
                  else if even f then f else f + 1))
     | Infinity \<Rightarrow> Inl OverflowError
     | NaN \<Rightarrow> Inl ValueError)"

definition py_mul :: "pyfloat \<Rightarrow> rat \<Rightarrow> pyfloat" where
  "py_mul x k = (case x of Finite r \<Rightarrow> Finite (r * k) | Infinity \<Rightarrow> Infinity | NaN \<Rightarrow> NaN)"

text \<open>
  A published value is an integer or a float. Each category of \<^verbatim>\<open>bot.stats\<close> is a
  \<^verbatim>\<open>SimpleNamespace\<close>: a map from attribute name to value.
\<close>

datatype stat = IntV int | FloatV rat

type_synonym namespace = "string \<rightharpoonup> stat"

record store =
  st_guilds :: namespace
  st_bot :: namespace
  st_shards :: namespace
  st_audio :: namespace
  st_currency :: namespace
  st_guilds_regions :: namespace
  st_guild_features :: namespace
  st_guild_verification :: namespace
  st_adventure :: namespace

text \<open>What a collector can change: the store, and the log (\<^verbatim>\<open>log.exception\<close>).\<close>

record world =
  stats :: store
  logged :: "string list"

text \<open>
  A \<^verbatim>\<open>collections.Counter\<close> of one pass. \<^verbatim>\<open>c[k] += n\<close> reads a missing key as 0.
  \<open>publish\<close> is the loop \<^verbatim>\<open>for key, value in counter.items(): setattr(ns, str(key), value)\<close>.
\<close>

type_synonym counter = "string \<rightharpoonup> int"

definition counter_get :: "counter \<Rightarrow> string \<Rightarrow> int" where
  "counter_get c k = (case c k of None \<Rightarrow> 0 | Some v \<Rightarrow> v)"

definition counter_add :: "string \<Rightarrow> int \<Rightarrow> counter \<Rightarrow> counter" where
  "counter_add k n c = c(k \<mapsto> counter_get c k + n)"

definition publish :: "counter \<Rightarrow> namespace \<Rightarrow> namespace" where
  "publish c ns = (\<lambda>k. case c k of None \<Rightarrow> ns k | Some v \<Rightarrow> Some (IntV v))"

text \<open>Decimal digits of a natural number: \<^verbatim>\<open>f"{n}"\<close>.\<close>

definition digit_char :: "nat \<Rightarrow> char" where
  "digit_char d = ''0123456789'' ! d"

fun string_of_nat :: "nat \<Rightarrow> string" where
  "string_of_nat n =
     (if n < 10 then [digit_char n]
      else string_of_nat (n div 10) @ [digit_char (n mod 10)])"

declare string_of_nat.simps [simp del]

section \<open>The host framework's asynchronous iterator\<close>

text \<open>
  \<^verbatim>\<open>AsyncIter(iterable, delay, steps)\<close> of \<^verbatim>\<open>redbot.core.utils\<close> yields every item of the
  iterable and sleeps for \<^verbatim>\<open>delay\<close> every \<^verbatim>\<open>steps\<close> items:
  \<^verbatim>\<open>
    item = next(self._iterator)          # StopAsyncIteration at the end
    if self._i == self._steps:
        self._i = 0
        await asyncio.sleep(self._delay)
    self._i += 1
    return item
  \<close>
  The loop \<^verbatim>\<open>async for x in AsyncIter(xs, steps=n): body\<close> is \<open>async_for n body xs 0 0 s\<close>:
  the arguments after the list are the iterator's counter \<^verbatim>\<open>_i\<close>, the number of sleeps
  so far and the state of the loop body. The result is the final state and the number of
  sleeps.
\<close>

fun async_for :: "nat \<Rightarrow> ('a \<Rightarrow> 's \<Rightarrow> 's) \<Rightarrow> 'a list \<Rightarrow> nat \<Rightarrow> nat \<Rightarrow> 's \<Rightarrow> 's \<times> nat" where
  "async_for steps body [] i sleeps s = (s, sleeps)"
| "async_for steps body (x # xs) i sleeps s =
     (if i = steps then async_for steps body xs 1 (sleeps + 1) (body x s)
      else async_for steps body xs (i + 1) sleeps (body x s))"

text \<open>The same loop with a body that can raise: the first exception ends the loop.\<close>

fun async_for_try ::
  "nat \<Rightarrow> ('a \<Rightarrow> 's \<Rightarrow> py_error + 's) \<Rightarrow> 'a list \<Rightarrow> nat \<Rightarrow> nat \<Rightarrow> 's \<Rightarrow> py_error + ('s \<times> nat)" where
  "async_for_try steps body [] i sleeps s = Inr (s, sleeps)"
| "async_for_try steps body (x # xs) i sleeps s =
     (let i' = (if i = steps then 1 else i + 1);
          sleeps' = (if i = steps then sleeps + 1 else sleeps)
      in case body x s of
           Inl e \<Rightarrow> Inl e
         | Inr s' \<Rightarrow> async_for_try steps body xs i' sleeps' s')"

text \<open>The constructor refuses \<^verbatim>\<open>steps < 1\<close> with a \<^verbatim>\<open>ValueError\<close>.\<close>

definition AsyncIter_try ::
  "nat \<Rightarrow> ('a \<Rightarrow> 's \<Rightarrow> py_error + 's) \<Rightarrow> 'a list \<Rightarrow> 's \<Rightarrow> py_error + ('s \<times> nat)" where
  "AsyncIter_try steps body xs s =
     (if steps < 1 then Inl ValueError else async_for_try steps body xs 0 0 s)"

section \<open>The host: guilds, members, settings and the optional plugins\<close>

text \<open>
  What the collectors read of the \<^verbatim>\<open>discord\<close> object graph. Only the attributes the source
  reads are fields. \<open>m_on_mobile\<close> is \<^verbatim>\<open>member.is_on_mobile()\<close>; an activity is its
  \<^verbatim>\<open>type\<close>, the only attribute read.
\<close>

datatype status = Online | Offline | Idle | DoNotDisturb | Invisible

datatype activity_type = Unknown | Playing | Streaming | Listening | Watching | Custom | Competing

record member =
  m_id :: nat
  m_bot :: bool
  m_on_mobile :: bool
  m_activities :: "activity_type list"
  m_status :: status
  m_mobile_status :: status
  m_desktop_status :: status
  m_web_status :: status

text \<open>
  Channels by their class: a text channel with \<^verbatim>\<open>is_nsfw()\<close> and \<^verbatim>\<open>is_news()\<close>, a voice
  channel with its connected members, a category, or any other class (stage, forum).
\<close>

datatype channel =
    TextChannel nat bool bool
  | VoiceChannel nat "member list"
  | CategoryChannel nat
  | OtherChannel nat

record emoji =
  e_id :: nat
  e_animated :: bool

text \<open>
  \<open>g_member_count\<close> is \<^verbatim>\<open>getattr(guild, "member_count", 0)\<close> before the default: \<open>None\<close>
  when the guild has no such attribute. It is an attribute of its own, not the length of
  \<open>g_members\<close> (the cached member objects). \<open>g_me\<close> is the id of \<^verbatim>\<open>guild.me\<close>;
  \<open>g_verification_level\<close> is \<^verbatim>\<open>f'{guild.verification_level}'\<close>.
\<close>

record guild =
  g_id :: nat
  g_unavailable :: bool
  g_member_count :: "int option"
  g_features :: "string list"
  g_verification_level :: string
  g_roles :: "nat list"
  g_large :: bool
  g_chunked :: bool
  g_premium_tier :: int
  g_channels :: "channel list"
  g_emojis :: "emoji list"
  g_members :: "member list"
  g_me :: nat

text \<open>A counter value of the audio collector before it is normalised.\<close>

datatype cval = CInt int | CStr string

text \<open>
  One snapshot of everything a cycle reads.
  \<^item> \<open>h_lightmode\<close>, \<open>h_detailed\<close>, \<open>h_topgg\<close>: the settings cache.
  \<^item> \<open>h_latency\<close>, \<open>h_latencies\<close>: \<^verbatim>\<open>bot.latency\<close> and \<^verbatim>\<open>bot.latencies\<close>, in seconds.
  \<^item> \<open>h_dbl_tokens\<close>: \<^verbatim>\<open>bot.get_shared_api_tokens("dbl")\<close>.
  \<^item> \<open>h_request\<close>: what the GET of the vote endpoint does: the exception it raises, or
    the status and what \<^verbatim>\<open>resp.json\<close> does (an exception or the numeric fields of the
    body).
  \<^item> \<open>h_bank_accounts\<close>: what \<^verbatim>\<open>bank._config.all_users()\<close> does.
  \<^item> \<open>h_active_players\<close>, \<open>h_all_players\<close>: \<^verbatim>\<open>lavalink.active_players()\<close> and
    \<^verbatim>\<open>lavalink.all_players()\<close>.
  \<^item> \<open>h_mart_tools\<close>: the \<^verbatim>\<open>get_value(key, perma=True, raw=True)\<close> of the MartTools
    cog; \<open>None\<close> when the cog is not loaded or has no such attribute.
  \<^item> \<open>h_adventure\<close>: \<open>None\<close> when the Adventure cog is not loaded, else what its
    \<^verbatim>\<open>config.all_users()\<close> does.
\<close>

record host =
  h_lightmode :: bool
  h_detailed :: bool
  h_topgg :: bool
  h_guilds :: "guild list"
  h_latency :: pyfloat
  h_shard_count :: int
  h_latencies :: "(nat \<times> pyfloat) list"
  h_dbl_tokens :: "(string \<times> string) list"
  h_request :: "py_error + (int \<times> (py_error + (string \<times> int) list))"
  h_bank_accounts :: "py_error + (nat \<times> pydict) list"
  h_active_players :: "nat list"
  h_all_players :: "nat list"
  h_mart_tools :: "(string \<Rightarrow> cval) option"
  h_adventure :: "(py_error + (nat \<times> pydict) list) option"

section \<open>External vote fetch\<close>

text \<open>\<^verbatim>\<open>contextlib.suppress(aiohttp.ServerTimeoutError, asyncio.TimeoutError)\<close>.\<close>

definition suppressed :: "py_error \<Rightarrow> bool" where
  "suppressed e = (e = ServerTimeoutError \<or> e = TimeoutError)"

text \<open>
  \<^verbatim>\<open>(await bot.get_shared_api_tokens("dbl")).get("api_key", "")\<close>, and
  \<^verbatim>\<open>get_votes\<close>: \<open>Inl e\<close> is the exception that leaves the function, \<open>Inr d\<close> the mapping it
  returns (\<open>[]\<close> is \<^verbatim>\<open>{}\<close>). \<^verbatim>\<open>data\<close> is still \<^verbatim>\<open>{}\<close> when a suppressed exception leaves
  the \<^verbatim>\<open>with\<close> block.
\<close>

definition api_key :: "host \<Rightarrow> string" where
  "api_key h = (case map_of (h_dbl_tokens h) ''api_key'' of None \<Rightarrow> [] | Some k \<Rightarrow> k)"

definition get_votes :: "host \<Rightarrow> py_error + (string \<times> int) list" where
  "get_votes h =
     (let key = api_key h
      in if key = [] then Inr []
         else (case h_request h of
                 Inl e \<Rightarrow> (if suppressed e then Inr [] else Inl e)
               | Inr (status, body) \<Rightarrow>
                   (if status \<noteq> 200 then Inr []
                    else (case body of
                            Inl e \<Rightarrow> (if suppressed e then Inr [] else Inl e)
                          | Inr data \<Rightarrow> Inr data))))"

section \<open>Shard-latency and currency collectors\<close>

text \<open>
  Neither has a \<^verbatim>\<open>try\<close> of its own. A collector returns the exception that leaves it
  (\<open>None\<close> when it returns normally) and the world as it is at that moment.
\<close>

definition set_shard :: "string \<Rightarrow> stat \<Rightarrow> world \<Rightarrow> world" where
  "set_shard k v w = w\<lparr>stats := (stats w)\<lparr>st_shards := (st_shards (stats w))(k \<mapsto> v)\<rparr>\<rparr>"

fun write_shards_data_loop :: "(nat \<times> pyfloat) list \<Rightarrow> world \<Rightarrow> py_error option \<times> world" where
  "write_shards_data_loop [] w = (None, w)"
| "write_shards_data_loop ((index, latency) # rest) w =
     (case py_int (py_mul latency 1000) of
        Inl e \<Rightarrow> (Some e, w)
      | Inr ms \<Rightarrow> write_shards_data_loop rest (set_shard (string_of_nat (index + 1)) (IntV ms) w))"

definition write_shards_data :: "host \<Rightarrow> world \<Rightarrow> py_error option \<times> world" where
  "write_shards_data h w = write_shards_data_loop (h_latencies h) w"

text \<open>\<^verbatim>\<open>overall += value["balance"]\<close>.\<close>

definition add_balance :: "nat \<times> pydict \<Rightarrow> int \<Rightarrow> py_error + int" where
  "add_balance kv overall =
     (case map_of (snd kv) ''balance'' of
        None \<Rightarrow> Inl KeyError
      | Some (JInt b) \<Rightarrow> Inr (overall + b)
      | Some _ \<Rightarrow> Inl TypeError)"

text \<open>
  The currency collector with the batch size of its iteration as a parameter; the source
  fixes it to 50.
\<close>

definition write_currency_data_steps :: "nat \<Rightarrow> host \<Rightarrow> world \<Rightarrow> py_error option \<times> world" where
  "write_currency_data_steps steps h w =
     (case h_bank_accounts h of
        Inl e \<Rightarrow> (Some e, w)
      | Inr accounts \<Rightarrow>
          (case AsyncIter_try steps add_balance accounts 0 of
             Inl e \<Rightarrow> (Some e, w)
           | Inr (overall, sleeps) \<Rightarrow>
               (None, w\<lparr>stats := (stats w)\<lparr>st_currency :=
                  publish [''Currency In Circulation'' \<mapsto> overall] (st_currency (stats w))\<rparr>\<rparr>)))"

definition write_currency_data :: "host \<Rightarrow> world \<Rightarrow> py_error option \<times> world" where
  "write_currency_data = write_currency_data_steps 50"

section \<open>Audio collector\<close>

text \<open>\<^verbatim>\<open>int(re.sub(r"\D", "", value))\<close>: the digits of the string, read in base ten.\<close>

definition is_digit :: "char \<Rightarrow> bool" where
  "is_digit c = (c \<in> set ''0123456789'')"

definition int_of_digits :: "string \<Rightarrow> py_error + int" where
  "int_of_digits ds =
     (if ds = [] then Inl ValueError
      else Inr (foldl (\<lambda>n c. 10 * n + (of_char c - 48)) 0 ds))"

definition normalise :: "cval \<Rightarrow> py_error + int" where
  "normalise v = (case v of CInt n \<Rightarrow> Inr n | CStr s \<Rightarrow> int_of_digits (filter is_digit s))"

definition mart_tools_keys :: "(string \<times> string) list" where
  "mart_tools_keys =
     [(''Tracks Played'', ''tracks_played''),
      (''Streams Played'', ''streams_played''),
      (''YouTube Streams Played'', ''yt_streams_played''),
      (''Mixer Streams Played'', ''mixer_streams_played''),
      (''Twitch Streams Played'', ''ttv_streams_played''),
      (''Other Streams Played'', ''other_streams_played''),
      (''YouTube Videos Played'', ''youtube_tracks''),
      (''SoundCloud Tracks Played'', ''soundcloud_tracks''),
      (''Bandcamp Tracks Played'', ''bandcamp_tracks''),
      (''Vimeo Tracks Played'', ''vimeo_tracks''),
      (''Mixer Tracks Played'', ''mixer_tracks''),
      (''TwichTV Videos Played'', ''twitch_tracks''),
      (''Other Tracks Played'', ''other_tracks'')]"

text \<open>The counter of the pass in insertion order, the order in which it is written.\<close>

definition audio_counter :: "host \<Rightarrow> (string \<times> cval) list" where
  "audio_counter h =
     (let active = int (length (h_active_players h));
          total = int (length (h_all_players h));
          c = [(''Active Music Players'', CInt active),
               (''Music Players'', CInt total),
               (''Inactive Music Players'', CInt (total - active))]
      in case h_mart_tools h of
           None \<Rightarrow> c
         | Some get_value \<Rightarrow>
             if h_detailed h
             then fold (\<lambda>(label, key) c. AList.update label (get_value key) c) mart_tools_keys c
             else c)"

definition set_audio :: "string \<Rightarrow> stat \<Rightarrow> world \<Rightarrow> world" where
  "set_audio k v w = w\<lparr>stats := (stats w)\<lparr>st_audio := (st_audio (stats w))(k \<mapsto> v)\<rparr>\<rparr>"

fun write_audio_data_loop :: "(string \<times> cval) list \<Rightarrow> world \<Rightarrow> py_error option \<times> world" where
  "write_audio_data_loop [] w = (None, w)"
| "write_audio_data_loop ((key, v) # rest) w =
     (case normalise v of
        Inl e \<Rightarrow> (Some e, w)
      | Inr n \<Rightarrow> write_audio_data_loop rest (set_audio key (IntV n) w))"

definition log_exception :: "string \<Rightarrow> world \<Rightarrow> world" where
  "log_exception msg w = w\<lparr>logged := logged w @ [msg]\<rparr>"

definition write_audio_data :: "host \<Rightarrow> world \<Rightarrow> py_error option \<times> world" where
  "write_audio_data h w =
     (if h_lightmode h then (None, w)
      else case write_audio_data_loop (audio_counter h) w of
             (Some e, w') \<Rightarrow> (None, log_exception ''Exception in write_audio_data'' w')
           | (None, w') \<Rightarrow> (None, w'))"

section \<open>Adventure collector\<close>

text \<open>A loop whose body can raise: the first exception ends it.\<close>

fun fold_try :: "('a \<Rightarrow> 's \<Rightarrow> py_error + 's) \<Rightarrow> 'a list \<Rightarrow> 's \<Rightarrow> py_error + 's" where
  "fold_try body [] s = Inr s"
| "fold_try body (x # xs) s =
     (case body x s of Inl e \<Rightarrow> Inl e | Inr s' \<Rightarrow> fold_try body xs s')"

definition adventure_names :: "string list" where
  "adventure_names =
     [''wins'', ''loses'', ''fight'', ''spell'', ''talk'', ''pray'', ''run'', ''fumbles'']"

definition adventure_defaults :: pydict where
  "adventure_defaults = map (\<lambda>k. (k, JInt 0)) adventure_names"

text \<open>
  \<^verbatim>\<open>for item in ["adventures", "rebirths", "set_items"]: if item not in v: v.update(...)\<close>
\<close>

definition backfill_item :: "string \<Rightarrow> pydict \<Rightarrow> pydict" where
  "backfill_item item v =
     (if map_of v item = None
      then (if item = ''adventures''
            then AList.update item (JDict adventure_defaults) v
            else AList.update item (JInt 0) v)
      else v)"

definition backfill :: "pydict \<Rightarrow> pydict" where
  "backfill v = fold backfill_item [''adventures'', ''rebirths'', ''set_items''] v"

text \<open>\<^verbatim>\<open>d.update(other)\<close>.\<close>

definition dict_update :: "pydict \<Rightarrow> pydict \<Rightarrow> pydict" where
  "dict_update other d = fold (\<lambda>(k, x) d. AList.update k x d) other d"

text \<open>
  \<^verbatim>\<open>for (s, sv) in vi.items(): if s in {...}: user_data.update(vi)\<close>: the whole
  sub-record is merged, once for each of its keys that is one of the eight names.
\<close>

definition merge_adventures :: "pydict \<Rightarrow> pydict \<Rightarrow> pydict" where
  "merge_adventures vi user_data =
     fold (\<lambda>(s, sv) ud. if s \<in> set adventure_names then dict_update vi ud else ud) vi user_data"

text \<open>The body of \<^verbatim>\<open>for (vk, vi) in v.items()\<close>; \<^verbatim>\<open>vi.items()\<close> needs a dictionary.\<close>

definition collect_item :: "string \<times> jval \<Rightarrow> pydict \<Rightarrow> py_error + pydict" where
  "collect_item kv user_data =
     (if fst kv \<in> set [''rebirths'', ''set_items''] then Inr (AList.update (fst kv) (snd kv) user_data)
      else if fst kv \<in> set [''adventures'']
      then (case snd kv of
              JDict vi \<Rightarrow> Inr (merge_adventures vi user_data)
            | _ \<Rightarrow> Inl AttributeError)
      else Inr user_data)"

text \<open>The body of the first loop, over \<^verbatim>\<open>raw_accounts.items()\<close>.\<close>

definition normalise_account ::
  "nat \<times> pydict \<Rightarrow> (nat \<times> pydict) list \<Rightarrow> py_error + (nat \<times> pydict) list" where
  "normalise_account kv raw_accounts_new =
     (case fold_try collect_item (backfill (snd kv)) [] of
        Inl e \<Rightarrow> Inl e
      | Inr user_data \<Rightarrow>
          Inr (if user_data \<noteq> [] then AList.update (fst kv) user_data raw_accounts_new
               else raw_accounts_new))"

definition adventure_labels :: "(string \<times> string) list" where
  "adventure_labels =
     [(''Set Items'', ''set_items''),
      (''Rebirths'', ''rebirths''),
      (''Wins'', ''wins''),
      (''Losses'', ''loses''),
      (''Physical Attacks'', ''fight''),
      (''Magical Attacks'', ''spell''),
      (''Diplomatic Attacks'', ''talk''),
      (''Prayers'', ''pray''),
      (''Retreats'', ''run''),
      (''Fumbles'', ''fumbles'')]"

text \<open>\<^verbatim>\<open>adventure_count[label] += u_data.get(key, 0)\<close>: the value has to be a number.\<close>

definition add_field :: "pydict \<Rightarrow> string \<times> string \<Rightarrow> counter \<Rightarrow> py_error + counter" where
  "add_field u_data lk c =
     (case map_of u_data (snd lk) of
        None \<Rightarrow> Inr (counter_add (fst lk) 0 c)
      | Some (JInt n) \<Rightarrow> Inr (counter_add (fst lk) n c)
      | Some _ \<Rightarrow> Inl TypeError)"

text \<open>The body of the second loop, over \<^verbatim>\<open>raw_accounts_new.items()\<close>.\<close>

definition tally_account :: "nat \<times> pydict \<Rightarrow> counter \<Rightarrow> py_error + counter" where
  "tally_account kv c = fold_try (add_field (snd kv)) adventure_labels c"

text \<open>Both loops: from the raw accounts to \<^verbatim>\<open>adventure_count\<close>.\<close>

definition adventure_count :: "(nat \<times> pydict) list \<Rightarrow> py_error + counter" where
  "adventure_count raw_accounts =
     (case AsyncIter_try 50 normalise_account raw_accounts [] of
        Inl e \<Rightarrow> Inl e
      | Inr (raw_accounts_new, sleeps) \<Rightarrow>
          (case AsyncIter_try 25 tally_account raw_accounts_new Map.empty of
             Inl e \<Rightarrow> Inl e
           | Inr (c, sleeps') \<Rightarrow> Inr c))"

text \<open>Arithmetic on published values: \<^verbatim>\<open>+\<close>, \<^verbatim>\<open>/\<close> (true division) and \<^verbatim>\<open>*\<close>.\<close>

definition stat_num :: "stat \<Rightarrow> rat" where
  "stat_num v = (case v of IntV n \<Rightarrow> of_int n | FloatV r \<Rightarrow> r)"

definition stat_add :: "stat \<Rightarrow> stat \<Rightarrow> stat" where
  "stat_add a b =
     (case (a, b) of
        (IntV m, IntV n) \<Rightarrow> IntV (m + n)
      | _ \<Rightarrow> FloatV (stat_num a + stat_num b))"

definition stat_mul :: "stat \<Rightarrow> stat \<Rightarrow> stat" where
  "stat_mul a b =
     (case (a, b) of
        (IntV m, IntV n) \<Rightarrow> IntV (m * n)
      | _ \<Rightarrow> FloatV (stat_num a * stat_num b))"

definition stat_truediv :: "stat \<Rightarrow> stat \<Rightarrow> py_error + stat" where
  "stat_truediv a b =
     (if stat_num b = 0 then Inl ZeroDivisionError
      else Inr (FloatV (stat_num a / stat_num b)))"

text \<open>Reading an attribute of a namespace.\<close>

definition getattr_ns :: "namespace \<Rightarrow> string \<Rightarrow> py_error + stat" where
  "getattr_ns ns k = (case ns k of None \<Rightarrow> Inl AttributeError | Some v \<Rightarrow> Inr v)"

text \<open>
  \<^verbatim>\<open>if total_adventure: win_per = Wins / total_adventure; loss_per = Losses / total_adventure\<close>
  \<^verbatim>\<open>else: win_per = 0; loss_per = 0\<close>
\<close>

definition percentages :: "stat \<Rightarrow> stat \<Rightarrow> stat \<Rightarrow> py_error + (stat \<times> stat)" where
  "percentages Wins Losses total_adventure =
     (if stat_num total_adventure \<noteq> 0
      then (case stat_truediv Wins total_adventure of
              Inl e \<Rightarrow> Inl e
            | Inr win_per \<Rightarrow>
                (case stat_truediv Losses total_adventure of
                   Inl e \<Rightarrow> Inl e
                 | Inr loss_per \<Rightarrow> Inr (win_per, loss_per)))
      else Inr (IntV 0, IntV 0))"

text \<open>
  The writes of the adventure collector, from \<^verbatim>\<open>setattr(bot.stats.adventure, "Wins", 0)\<close>
  on. \<open>Wins\<close> and \<open>Losses\<close> are read back from the namespace. The result is \<open>None\<close> with
  the namespace when all writes are done, or an exception with the namespace at the
  moment it is raised.
\<close>

definition adventure_publish :: "counter \<Rightarrow> namespace \<Rightarrow> py_error option \<times> namespace" where
  "adventure_publish c ns =
     (let ns1 = ns(''Wins'' \<mapsto> IntV 0);
          ns2 = ns1(''Losses'' \<mapsto> IntV 0);
          ns3 = publish c ns2
      in case getattr_ns ns3 ''Wins'' of
           Inl e \<Rightarrow> (Some e, ns3)
         | Inr Wins \<Rightarrow>
             (case getattr_ns ns3 ''Losses'' of
                Inl e \<Rightarrow> (Some e, ns3)
              | Inr Losses \<Rightarrow>
                  (let total_adventure = stat_add Wins Losses
                   in case percentages Wins Losses total_adventure of
                        Inl e \<Rightarrow> (Some e, ns3)
                      | Inr (win_per, loss_per) \<Rightarrow>
                          (None, ns3(''Adventures'' \<mapsto> total_adventure,
                                     ''Win Percentage'' \<mapsto> stat_mul win_per (IntV 100),
                                     ''Loss Percentage'' \<mapsto> stat_mul loss_per (IntV 100))))))"

definition set_adventure :: "namespace \<Rightarrow> world \<Rightarrow> world" where
  "set_adventure ns w = w\<lparr>stats := (stats w)\<lparr>st_adventure := ns\<rparr>\<rparr>"

text \<open>
  The collector: two early returns, then the \<^verbatim>\<open>try\<close> whose handler logs. Every exception
  of the body is an \<^verbatim>\<open>Exception\<close>, so the handler catches it.
\<close>

definition write_adventure_data :: "host \<Rightarrow> world \<Rightarrow> py_error option \<times> world" where
  "write_adventure_data h w =
     (case h_adventure h of
        None \<Rightarrow> (None, w)
      | Some all_users \<Rightarrow>
          (if h_lightmode h then (None, w)
           else (case all_users of
                   Inl e \<Rightarrow> (None, log_exception ''Exception in write_adventure_data'' w)
                 | Inr raw_accounts \<Rightarrow>
                     (case adventure_count raw_accounts of
                        Inl e \<Rightarrow> (None, log_exception ''Exception in write_adventure_data'' w)
                      | Inr c \<Rightarrow>
                          (case adventure_publish c (st_adventure (stats w)) of
                             (Some e, ns) \<Rightarrow>
                               (None, log_exception ''Exception in write_adventure_data''
                                        (set_adventure ns w))
                           | (None, ns) \<Rightarrow> (None, set_adventure ns w))))))"

section \<open>Guild and bot collector\<close>

text \<open>
  \<^verbatim>\<open>defaultdict(set)\<close>: a key exists once something was added under it.
  \<open>flatten\<close> is \<^verbatim>\<open>for key, value in temp_data.items(): counter[key] = len(value)\<close>.
\<close>

type_synonym idsets = "string \<rightharpoonup> nat set"

definition idset_add :: "string \<Rightarrow> nat \<Rightarrow> idsets \<Rightarrow> idsets" where
  "idset_add k i d = d(k \<mapsto> insert i (case d k of None \<Rightarrow> {} | Some s \<Rightarrow> s))"

definition flatten :: "idsets \<Rightarrow> counter \<Rightarrow> counter" where
  "flatten d c = (\<lambda>k. case d k of None \<Rightarrow> c k | Some s \<Rightarrow> Some (int (card s)))"

text \<open>The seven working structures of one pass of \<^verbatim>\<open>write_bot_data\<close>.\<close>

record tallies =
  t_counter :: counter
  t_server_counter :: counter
  t_region_count :: counter
  t_verify_count :: counter
  t_features_count :: counter
  t_temp_data :: idsets
  t_server_temp_data :: idsets

definition empty_tallies :: tallies where
  "empty_tallies =
     \<lparr>t_counter = Map.empty, t_server_counter = Map.empty, t_region_count = Map.empty,
      t_verify_count = Map.empty, t_features_count = Map.empty,
      t_temp_data = Map.empty, t_server_temp_data = Map.empty\<rparr>"

definition set_counter :: "string \<Rightarrow> int \<Rightarrow> tallies \<Rightarrow> tallies" where
  "set_counter k n t = t\<lparr>t_counter := (t_counter t)(k \<mapsto> n)\<rparr>"

definition set_server :: "string \<Rightarrow> int \<Rightarrow> tallies \<Rightarrow> tallies" where
  "set_server k n t = t\<lparr>t_server_counter := (t_server_counter t)(k \<mapsto> n)\<rparr>"

definition inc_counter :: "string \<Rightarrow> int \<Rightarrow> tallies \<Rightarrow> tallies" where
  "inc_counter k n t = t\<lparr>t_counter := counter_add k n (t_counter t)\<rparr>"

definition inc_server :: "string \<Rightarrow> int \<Rightarrow> tallies \<Rightarrow> tallies" where
  "inc_server k n t = t\<lparr>t_server_counter := counter_add k n (t_server_counter t)\<rparr>"

definition inc_verify :: "string \<Rightarrow> int \<Rightarrow> tallies \<Rightarrow> tallies" where
  "inc_verify k n t = t\<lparr>t_verify_count := counter_add k n (t_verify_count t)\<rparr>"

definition inc_features :: "string \<Rightarrow> int \<Rightarrow> tallies \<Rightarrow> tallies" where
  "inc_features k n t = t\<lparr>t_features_count := counter_add k n (t_features_count t)\<rparr>"

definition add_temp :: "string \<Rightarrow> nat \<Rightarrow> tallies \<Rightarrow> tallies" where
  "add_temp k i t = t\<lparr>t_temp_data := idset_add k i (t_temp_data t)\<rparr>"

definition add_server_temp :: "string \<Rightarrow> nat \<Rightarrow> tallies \<Rightarrow> tallies" where
  "add_server_temp k i t = t\<lparr>t_server_temp_data := idset_add k i (t_server_temp_data t)\<rparr>"

text \<open>The lookup tables \<^verbatim>\<open>verify\<close> and \<^verbatim>\<open>features\<close>, and \<^verbatim>\<open>table.get(key) or 'Unknown'\<close>.\<close>

definition verify :: "(string \<times> string) list" where
  "verify =
     [(''none'', ''None''), (''low'', ''Low''), (''medium'', ''Medium''),
      (''high'', ''High''), (''extreme'', ''Extreme'')]"

definition features :: "(string \<times> string) list" where
  "features =
     [(''VIP_REGIONS'', ''VIP Voice Servers''),
      (''VANITY_URL'', ''Vanity URL''),
      (''INVITE_SPLASH'', ''Splash Invite''),
      (''VERIFIED'', ''Verified''),
      (''PARTNERED'', ''Partnered''),
      (''MORE_EMOJI'', ''More Emojis''),
      (''DISCOVERABLE'', ''Server Discovery''),
      (''FEATURABLE'', ''Featurable''),
      (''COMMERCE'', ''Commerce''),
      (''PUBLIC'', ''Public''),
      (''NEWS'', ''News Channels''),
      (''BANNER'', ''Banner Image''),
      (''ANIMATED_ICON'', ''Animated Icon''),
      (''PUBLIC_DISABLED'', ''Public disabled''),
      (''MEMBER_LIST_DISABLED'', ''Member list disabled''),
      (''ENABLED_DISCOVERABLE_BEFORE'', ''Was in Server Discovery''),
      (''WELCOME_SCREEN_ENABLED'', ''Welcome Screen'')]"

definition get_or_unknown :: "(string \<times> string) list \<Rightarrow> string \<Rightarrow> string" where
  "get_or_unknown table k =
     (case map_of table k of
        None \<Rightarrow> ''Unknown''
      | Some v \<Rightarrow> (if v = [] then ''Unknown'' else v))"

text \<open>
  \<^verbatim>\<open>if topgg: vote_data = await get_votes(bot) or {}; if vote_data: ...\<close>
  A field counts when it is present and not zero.
\<close>

definition apply_votes :: "(string \<times> int) list \<Rightarrow> tallies \<Rightarrow> tallies" where
  "apply_votes vote_data t =
     (if vote_data \<noteq> []
      then (let t = (case map_of vote_data ''monthlyPoints'' of
                       None \<Rightarrow> t
                     | Some n \<Rightarrow> (if n \<noteq> 0 then set_counter ''Monthly Votes'' n else id) t)
            in case map_of vote_data ''points'' of
                 None \<Rightarrow> t
               | Some n \<Rightarrow> (if n \<noteq> 0 then set_counter ''Votes'' n else id) t)
      else t)"

text \<open>
  \<^verbatim>\<open>with contextlib.suppress(OverflowError):\<close>
  \<^verbatim>\<open>    counter["Discord Latency"] = int(round(bot.latency * 1000))\<close>
\<close>

definition discord_latency :: "pyfloat \<Rightarrow> tallies \<Rightarrow> py_error + tallies" where
  "discord_latency latency t =
     (case py_round (py_mul latency 1000) of
        Inl e \<Rightarrow> (if e = OverflowError then Inr t else Inl e)
      | Inr ms \<Rightarrow> Inr (set_counter ''Discord Latency'' ms t))"

text \<open>The block \<^verbatim>\<open>if detailed:\<close> of a guild: the feature and verification histograms.\<close>

definition guild_histograms :: "guild \<Rightarrow> tallies \<Rightarrow> tallies" where
  "guild_histograms g t =
     (let t = fold (\<lambda>feature. inc_features (get_or_unknown features feature) 1) (g_features g) t
      in inc_verify (get_or_unknown verify (g_verification_level g)) 1 t)"

definition premium_step :: "guild \<Rightarrow> tallies \<Rightarrow> tallies" where
  "premium_step g t =
     (let guild_premium_tier = g_premium_tier g;
          t = (if guild_premium_tier \<noteq> 0 then add_server_temp ''Nitro Boosted'' (g_id g) else id) t
      in (if guild_premium_tier = 1 then add_server_temp ''Tier 1 Nitro'' (g_id g)
          else if guild_premium_tier = 2 then add_server_temp ''Tier 2 Nitro'' (g_id g)
          else if guild_premium_tier = 3 then add_server_temp ''Tier 3 Nitro'' (g_id g)
          else id) t)"

text \<open>
  The body of \<^verbatim>\<open>for channel in guild.channels\<close>. \<^verbatim>\<open>guild.me in channel.members\<close> compares
  members by id.
\<close>

definition voice_with_me :: "member list \<Rightarrow> tallies \<Rightarrow> tallies" where
  "voice_with_me ms t =
     (let t = inc_counter ''Users in a VC with me'' (int (length ms) - 1) t;
          t = inc_server ''Bots in a VC with me'' (int (length (filter m_bot ms)) - 1) t
      in fold (\<lambda>m. if m_on_mobile m then add_temp ''Users in a VC on Mobile'' (m_id m) else id) ms t)"

definition channel_step :: "guild \<Rightarrow> channel \<Rightarrow> tallies \<Rightarrow> tallies" where
  "channel_step g ch t =
     (let t = inc_server ''Server Channels'' 1 t
      in case ch of
           TextChannel cid nsfw news \<Rightarrow>
             (let t = inc_server ''Text Channels'' 1 t;
                  t = (if nsfw then add_temp ''NSFW Text Channels'' cid else id) t
              in (if news then add_temp ''News Text Channels'' cid else id) t)
         | VoiceChannel cid ms \<Rightarrow>
             (let t = inc_server ''Voice Channels'' 1 t;
                  t = inc_counter ''Users in a VC'' (int (length ms)) t
              in (if g_me g \<in> set (map m_id ms) then voice_with_me ms else id) t)
         | CategoryChannel cid \<Rightarrow> inc_server ''Channel Categories'' 1 t
         | OtherChannel cid \<Rightarrow> t)"

definition emoji_step :: "emoji \<Rightarrow> tallies \<Rightarrow> tallies" where
  "emoji_step e t =
     (let t = inc_server ''Emojis'' 1 t
      in (if e_animated e then inc_server ''Animated Emojis'' 1
          else inc_server ''Static Emojis'' 1) t)"

text \<open>The block \<^verbatim>\<open>if not lightmode:\<close> of a guild.\<close>

definition guild_stats :: "bool \<Rightarrow> guild \<Rightarrow> tallies \<Rightarrow> tallies" where
  "guild_stats detailed g t =
     (let t = (if detailed then guild_histograms g else id) t;
          t = inc_server ''Roles'' (int (length (g_roles g))) t;
          t = (if g_large g then add_server_temp ''Large'' (g_id g) else id) t;
          t = (if \<not> g_chunked g then add_server_temp ''Unchunked'' (g_id g) else id) t;
          t = premium_step g t;
          t = fold (channel_step g) (g_channels g) t
      in fold emoji_step (g_emojis g) t)"

text \<open>
  The pattern \<^verbatim>\<open>temp_data[users].add(member.id)\<close> followed by the same for the bots' or
  the humans' label.
\<close>

definition tally_split :: "string \<Rightarrow> string \<Rightarrow> string \<Rightarrow> member \<Rightarrow> tallies \<Rightarrow> tallies" where
  "tally_split users bots humans m t =
     (let t = add_temp users (m_id m) t
      in (if m_bot m then add_temp bots (m_id m) else add_temp humans (m_id m)) t)"

text \<open>
  The body of \<^verbatim>\<open>async for a in AsyncIter(member.activities, steps=5, delay=0.01)\<close>; the
  state is the tallies and the flag \<^verbatim>\<open>streaming\<close>.
\<close>

definition activity_step :: "member \<Rightarrow> activity_type \<Rightarrow> tallies \<times> bool \<Rightarrow> tallies \<times> bool" where
  "activity_step m a ts =
     (let t = fst ts;
          t = (if a = Streaming
               then tally_split ''Users Streaming'' ''Bots Streaming'' ''Humans Streaming'' m
               else if a = Playing
               then tally_split ''Users Gaming'' ''Bots Gaming'' ''Humans Gaming'' m
               else id) t;
          t = (if a = Listening
               then tally_split ''Users Listening'' ''Bots Listening'' ''Humans Listening'' m
               else id) t;
          t = (if a = Watching
               then tally_split ''Users Watching'' ''Bots Watching'' ''Humans Watching'' m
               else id) t;
          t = (if a = Custom
               then tally_split ''Users with Custom Status'' ''Bots with Custom Status''
                      ''Humans with Custom Status'' m
               else id) t
      in (t, (if a = Streaming then True else snd ts)))"

text \<open>The block \<^verbatim>\<open>if not streaming:\<close>.\<close>

definition presence_step :: "member \<Rightarrow> tallies \<Rightarrow> tallies" where
  "presence_step m t =
     (let t = (if m_status m \<noteq> Offline
               then tally_split ''Users Connected'' ''Bots Connected'' ''Humans Connected'' m
               else id) t
      in (if m_status m = Online
          then tally_split ''Users Online'' ''Bots Online'' ''Humans Online'' m
          else if m_status m = Idle
          then tally_split ''Idle Users'' ''Idle Bots'' ''Idle Humans'' m
          else if m_status m = DoNotDisturb
          then tally_split ''Users in Do Not Disturb'' ''Bots in Do Not Disturb''
                 ''Humans in Do Not Disturb'' m
          else if m_status m = Offline
          then tally_split ''Users Offline'' ''Bots Offline'' ''Human Offline'' m
          else id) t)"

definition mobile_step :: "member \<Rightarrow> tallies \<Rightarrow> tallies" where
  "mobile_step m t =
     (if m_mobile_status m = Online then add_temp ''Users Online on Mobile'' (m_id m)
      else if m_mobile_status m = Idle then add_temp ''Users Idle on Mobile'' (m_id m)
      else if m_mobile_status m = DoNotDisturb
      then add_temp ''Users in Do Not Disturb on Mobile'' (m_id m)
      else if m_mobile_status m = Offline then add_temp ''Users Offline on Mobile'' (m_id m)
      else id) t"

definition desktop_step :: "member \<Rightarrow> tallies \<Rightarrow> tallies" where
  "desktop_step m t =
     (if m_desktop_status m = Online then add_temp ''Users Online on Desktop'' (m_id m)
      else if m_desktop_status m = Idle then add_temp ''Users Idle on Desktop'' (m_id m)
      else if m_desktop_status m = DoNotDisturb
      then add_temp ''Users in Do Not Disturb on Desktop'' (m_id m)
      else if m_desktop_status m = Offline then add_temp ''Users Offline on Desktop'' (m_id m)
      else id) t"

definition web_step :: "member \<Rightarrow> tallies \<Rightarrow> tallies" where
  "web_step m t =
     (if m_web_status m = Online then add_temp ''Users Online on Browser'' (m_id m)
      else if m_web_status m = Idle then add_temp ''Users Idle on Browser'' (m_id m)
      else if m_web_status m = DoNotDisturb
      then add_temp ''Users in Do Not Disturb on Browser'' (m_id m)
      else if m_web_status m = Offline then add_temp ''Users Offline on Browser'' (m_id m)
      else id) t"

text \<open>The block \<^verbatim>\<open>if detailed:\<close> of a member.\<close>

definition member_detailed :: "member \<Rightarrow> tallies \<Rightarrow> tallies" where
  "member_detailed m t =
     (let t = (if m_on_mobile m then add_temp ''Mobile Users'' (m_id m) else id) t;
          ts = fst (async_for 5 (activity_step m) (m_activities m) 0 0 (t, False));
          t = (\<lambda>(t, streaming). (if \<not> streaming then presence_step m else id) t) ts;
          t = mobile_step m t;
          t = desktop_step m t
      in web_step m t)"

text \<open>The body of \<^verbatim>\<open>async for member in AsyncIter(guild.members, steps=1000)\<close>.\<close>

definition member_step :: "bool \<Rightarrow> member \<Rightarrow> tallies \<Rightarrow> tallies" where
  "member_step detailed m t =
     (let t = add_temp ''Unique Users'' (m_id m) t;
          t = (if m_bot m then add_temp ''Bots'' (m_id m) else add_temp ''Humans'' (m_id m)) t
      in (if detailed then member_detailed m else id) t)"

text \<open>\<^verbatim>\<open>getattr(guild, "member_count", 0)\<close>.\<close>

definition member_count :: "guild \<Rightarrow> int" where
  "member_count g = (case g_member_count g of None \<Rightarrow> 0 | Some n \<Rightarrow> n)"

text \<open>The body of \<^verbatim>\<open>for guild in bot.guilds\<close>.\<close>

definition guild_step :: "bool \<Rightarrow> bool \<Rightarrow> guild \<Rightarrow> tallies \<Rightarrow> tallies" where
  "guild_step lightmode detailed g t =
     (if g_unavailable g then add_server_temp ''Unavailable'' (g_id g) t
      else (let t = inc_server ''Members'' (member_count g) t;
                t = (if \<not> lightmode then guild_stats detailed g else id) t
            in fst (async_for 1000 (member_step detailed) (g_members g) 0 0 t)))"

text \<open>The two loops that turn the sets of ids into counts.\<close>

definition flatten_tallies :: "tallies \<Rightarrow> tallies" where
  "flatten_tallies t =
     t\<lparr>t_counter := flatten (t_temp_data t) (t_counter t),
       t_server_counter := flatten (t_server_temp_data t) (t_server_counter t)\<rparr>"

text \<open>
  The \<^verbatim>\<open>try\<close> body of \<^verbatim>\<open>write_bot_data\<close> up to the writes: the tallies of the pass, or
  the exception that ends it.
\<close>

definition bot_tallies :: "host \<Rightarrow> py_error + tallies" where
  "bot_tallies h =
     (let lightmode = h_lightmode h;
          detailed = (if \<not> lightmode then h_detailed h else False);
          topgg = (if \<not> lightmode then h_topgg h else False)
      in case (if topgg
               then (case get_votes h of
                       Inl e \<Rightarrow> Inl e
                     | Inr vote_data \<Rightarrow> Inr (apply_votes vote_data empty_tallies))
               else Inr empty_tallies) of
           Inl e \<Rightarrow> Inl e
         | Inr t \<Rightarrow>
             (case discord_latency (h_latency h)
                     (set_server ''Total'' (int (length (h_guilds h))) t) of
                Inl e \<Rightarrow> Inl e
              | Inr t \<Rightarrow>
                  (let t = set_counter ''Shards'' (h_shard_count h) t;
                       t = fold (guild_step lightmode detailed) (h_guilds h) t
                   in Inr (flatten_tallies t))))"

text \<open>The five loops of \<^verbatim>\<open>setattr\<close> at the end of the \<^verbatim>\<open>try\<close> body.\<close>

definition publish_tallies :: "tallies \<Rightarrow> store \<Rightarrow> store" where
  "publish_tallies t st =
     st\<lparr>st_bot := publish (t_counter t) (st_bot st),
        st_guilds := publish (t_server_counter t) (st_guilds st),
        st_guilds_regions := publish (t_region_count t) (st_guilds_regions st),
        st_guild_features := publish (t_features_count t) (st_guild_features st),
        st_guild_verification := publish (t_verify_count t) (st_guild_verification st)\<rparr>"

definition write_bot_data :: "host \<Rightarrow> world \<Rightarrow> py_error option \<times> world" where
  "write_bot_data h w =
     (case bot_tallies h of
        Inl e \<Rightarrow> (None, log_exception ''Exception in write_bot_data'' w)
      | Inr t \<Rightarrow> (None, w\<lparr>stats := publish_tallies t (stats w)\<rparr>))"

section \<open>Scheduler\<close>

text \<open>
  \<^verbatim>\<open>asyncio.gather(..., return_exceptions=True)\<close>: the five collectors run to their end;
  an exception that leaves one of them is a result in the list, not an exception of
  \<^verbatim>\<open>gather\<close>. The collectors write to different categories and each block of writes has
  no suspension point, so they are run here one after the other, in the order of the list.
\<close>

fun gather ::
  "(world \<Rightarrow> py_error option \<times> world) list \<Rightarrow> world \<Rightarrow> py_error option list \<times> world" where
  "gather [] w = ([], w)"
| "gather (c # cs) w =
     (case c w of (r, w') \<Rightarrow> (case gather cs w' of (rs, w'') \<Rightarrow> (r # rs, w'')))"

definition run_events :: "host \<Rightarrow> world \<Rightarrow> py_error option \<times> world" where
  "run_events h w =
     (case gather [write_bot_data h, write_currency_data h, write_shards_data h,
                   write_audio_data h, write_adventure_data h] w of
        (results, w') \<Rightarrow> (None, w'))"

text \<open>
  The state of \<^verbatim>\<open>update_task\<close>: the world, the flag of the event \<^verbatim>\<open>bot._stats_ready\<close>, the
  number of calls of its \<^verbatim>\<open>set()\<close>, and the time slept.
\<close>

record sched =
  s_world :: world
  s_ready :: bool
  s_set_calls :: nat
  s_clock :: nat

text \<open>
  One turn of \<^verbatim>\<open>while True\<close>. The argument \<open>run\<close> is what \<^verbatim>\<open>await run_events(bot, config_cache)\<close>
  does in this cycle: \<open>run_events h\<close> for the host \<open>h\<close> of the cycle, or any other behaviour,
  an exception of the join itself included.
\<close>

definition update_task_cycle :: "(world \<Rightarrow> py_error option \<times> world) \<Rightarrow> sched \<Rightarrow> sched" where
  "update_task_cycle run s =
     (case run (s_world s) of
        (Some exc, w) \<Rightarrow>
          s\<lparr>s_world := log_exception ''update_task'' w, s_clock := s_clock s + 10\<rparr>
      | (None, w) \<Rightarrow>
          (let s = s\<lparr>s_world := w\<rparr>;
               s = (if \<not> s_ready s
                    then s\<lparr>s_ready := True, s_set_calls := s_set_calls s + 1\<rparr>
                    else s)
           in s\<lparr>s_clock := s_clock s + 60\<rparr>))"

text \<open>
  The loop never returns. \<open>update_task runs s\<close> is the state after the cycles \<open>runs\<close>, a
  finite prefix of the run.
\<close>

fun update_task :: "(world \<Rightarrow> py_error option \<times> world) list \<Rightarrow> sched \<Rightarrow> sched" where
  "update_task [] s = s"
| "update_task (run # runs) s = update_task runs (update_task_cycle run s)"

text \<open>For each cycle, whether \<^verbatim>\<open>run_events\<close> returned (the \<^verbatim>\<open>else\<close> branch was taken).\<close>

fun completed :: "(world \<Rightarrow> py_error option \<times> world) list \<Rightarrow> sched \<Rightarrow> bool list" where
  "completed [] s = []"
| "completed (run # runs) s =
     (fst (run (s_world s)) = None) # completed runs (update_task_cycle run s)"

section \<open>Initialisation of the bot object\<close>

text \<open>
  The attributes of the bot object that \<^verbatim>\<open>init_bot_stats\<close> touches; \<open>None\<close> is an attribute
  that does not exist. \<^verbatim>\<open>bot.stats\<close> is a namespace whose attributes are the categories
  (namespaces of counters) and \<^verbatim>\<open>to_dict\<close> (the partial application of \<^verbatim>\<open>_get_dict\<close>);
  \<^verbatim>\<open>bot._stats_task\<close> is \<^verbatim>\<open>None\<close> or a task; \<^verbatim>\<open>bot._stats_ready\<close> is an event with its flag.
\<close>

datatype stat_attr = Namespace namespace | Partial

record bot_obj =
  b_stats :: "(string \<rightharpoonup> stat_attr) option"
  b_stats_task :: "nat option option"
  b_stats_ready :: "bool option"

definition bot_stats :: "string list" where
  "bot_stats =
     [''guilds'', ''bot'', ''shards'', ''audio'', ''currency'', ''guilds_regions'',
      ''guild_features'', ''guild_verification'', ''adventure'']"

definition init_bot_stats :: "bot_obj \<Rightarrow> bot_obj" where
  "init_bot_stats b =
     (let ns = (case b_stats b of None \<Rightarrow> Map.empty | Some ns \<Rightarrow> ns);
          ns = fold (\<lambda>stat_obj ns.
                       if ns stat_obj = None then ns(stat_obj \<mapsto> Namespace Map.empty) else ns)
                 bot_stats ns;
          ns = (if ns ''to_dict'' = None then ns(''to_dict'' \<mapsto> Partial) else ns)
      in \<lparr>b_stats = Some ns,
          b_stats_task = (case b_stats_task b of None \<Rightarrow> Some None | Some task \<Rightarrow> Some task),
          b_stats_ready = (case b_stats_ready b of None \<Rightarrow> Some False | Some ev \<Rightarrow> Some ev)\<rparr>)"

text \<open>
  \<^verbatim>\<open>_get_dict\<close>: every attribute of \<^verbatim>\<open>bot.stats\<close> but \<^verbatim>\<open>to_dict\<close>, with its \<^verbatim>\<open>__dict__\<close>.
\<close>

definition get_dict :: "bot_obj \<Rightarrow> string \<rightharpoonup> namespace" where
  "get_dict b =
     (\<lambda>k. if k = ''to_dict'' then None
          else case b_stats b of
                 None \<Rightarrow> None
               | Some ns \<Rightarrow>
                   (case ns k of
                      None \<Rightarrow> None
                    | Some (Namespace d) \<Rightarrow> Some d
                    | Some Partial \<Rightarrow> Some Map.empty))"

section \<open>Concrete inputs\<close>

text \<open>A store with nothing published, a world with nothing logged, and a host with no
  guilds, no accounts, no players, no plugins and no credential.\<close>

definition empty_store :: store where
  "empty_store =
     \<lparr>st_guilds = Map.empty, st_bot = Map.empty, st_shards = Map.empty,
      st_audio = Map.empty, st_currency = Map.empty, st_guilds_regions = Map.empty,
      st_guild_features = Map.empty, st_guild_verification = Map.empty,
      st_adventure = Map.empty\<rparr>"

definition fresh_world :: world where
  "fresh_world = \<lparr>stats = empty_store, logged = []\<rparr>"

definition quiet_host :: host where
  "quiet_host =
     \<lparr>h_lightmode = False, h_detailed = False, h_topgg = False, h_guilds = [],
      h_latency = Finite 0, h_shard_count = 1, h_latencies = [], h_dbl_tokens = [],
      h_request = Inl TimeoutError, h_bank_accounts = Inr [], h_active_players = [],
      h_all_players = [], h_mart_tools = None, h_adventure = None\<rparr>"

text \<open>The balance of a well-formed bank account.\<close>

definition balance :: "nat \<times> pydict \<Rightarrow> int" where
  "balance kv = (case map_of (snd kv) ''balance'' of Some (JInt b) \<Rightarrow> b | _ \<Rightarrow> 0)"

text \<open>
  A bot object that has every attribute \<^verbatim>\<open>init_bot_stats\<close> looks for: \<^verbatim>\<open>stats\<close> with the nine
  categories and \<^verbatim>\<open>to_dict\<close>, \<^verbatim>\<open>_stats_task\<close> and \<^verbatim>\<open>_stats_ready\<close>.
\<close>

definition initialized :: "bot_obj \<Rightarrow> bool" where
  "initialized b =
     ((case b_stats b of
         None \<Rightarrow> False
       | Some ns \<Rightarrow> list_all (\<lambda>k. ns k \<noteq> None) bot_stats \<and> ns ''to_dict'' \<noteq> None)
      \<and> b_stats_task b \<noteq> None \<and> b_stats_ready b \<noteq> None)"

text \<open>A bot object in use: counters written, the task started, the event set.\<close>

definition used_bot :: bot_obj where
  "used_bot =
     \<lparr>b_stats = Some
        [''guilds'' \<mapsto> Namespace [''Total'' \<mapsto> IntV 3],
         ''bot'' \<mapsto> Namespace [''Shards'' \<mapsto> IntV 1],
         ''shards'' \<mapsto> Namespace [''1'' \<mapsto> IntV 42],
         ''audio'' \<mapsto> Namespace Map.empty,
         ''currency'' \<mapsto> Namespace [''Currency In Circulation'' \<mapsto> IntV 12],
         ''guilds_regions'' \<mapsto> Namespace Map.empty,
         ''guild_features'' \<mapsto> Namespace Map.empty,
         ''guild_verification'' \<mapsto> Namespace Map.empty,
         ''adventure'' \<mapsto> Namespace [''Win Percentage'' \<mapsto> FloatV 75],
         ''to_dict'' \<mapsto> Partial],
      b_stats_task = Some (Some 7),
      b_stats_ready = Some True\<rparr>"

text \<open>The scheduler before its first cycle, and a cycle whose join raises.\<close>

definition fresh_sched :: sched where
  "fresh_sched = \<lparr>s_world = fresh_world, s_ready = False, s_set_calls = 0, s_clock = 0\<rparr>"

definition failing_join :: "world \<Rightarrow> py_error option \<times> world" where
  "failing_join w = (Some HostError, w)"


text \<open>
  Hosts with one fault each: a bank account without a balance, a NaN latency, a save
  record whose \<^verbatim>\<open>adventures\<close> is a number, an Adventure cog whose configuration cannot be
  read, a companion plugin that returns strings without digits, and a shard whose
  latency is infinite.
\<close>

definition malformed_bank_host :: host where
  "malformed_bank_host = quiet_host\<lparr>h_bank_accounts := Inr [(1, [(''name'', JStr ''x'')])]\<rparr>"

definition nan_latency_host :: host where
  "nan_latency_host = quiet_host\<lparr>h_latency := NaN\<rparr>"

definition malformed_adventure_host :: host where
  "malformed_adventure_host = quiet_host\<lparr>h_adventure := Some (Inr [(1, [(''adventures'', JInt 3)])])\<rparr>"

definition failing_adventure_host :: host where
  "failing_adventure_host = quiet_host\<lparr>h_adventure := Some (Inl HostError)\<rparr>"

definition malformed_audio_host :: host where
  "malformed_audio_host = quiet_host\<lparr>h_detailed := True, h_mart_tools := Some (\<lambda>key. CStr ''n/a'')\<rparr>"

definition infinite_shard_host :: host where
  "infinite_shard_host = quiet_host\<lparr>h_latencies := [(0, Infinity)]\<rparr>"

section \<open>Observations on the tallies\<close>

text \<open>
  \<open>temp_ids t k\<close> is the set \<^verbatim>\<open>temp_data[k]\<close> (empty for a key that does not exist);
  \<open>available\<close> are the guilds the loop does not skip.
\<close>

definition temp_ids :: "tallies \<Rightarrow> string \<Rightarrow> nat set" where
  "temp_ids t k = (case t_temp_data t k of None \<Rightarrow> {} | Some s \<Rightarrow> s)"


text \<open>
  The value of a bucket after a member was processed: the member's id added when \<open>hit\<close>,
  the bucket as it was otherwise.
\<close>

definition bucket_after :: "bool \<Rightarrow> member \<Rightarrow> tallies \<Rightarrow> string \<Rightarrow> nat set option" where
  "bucket_after hit m t K = (if hit then Some (insert (m_id m) (temp_ids t K)) else t_temp_data t K)"


definition touches :: "bool \<Rightarrow> activity_type \<Rightarrow> string \<Rightarrow> bool" where
  "touches b a K =
     ((a = Streaming \<and> (K = ''Users Streaming'' \<or> (K = ''Bots Streaming'' \<and> b)
                        \<or> (K = ''Humans Streaming'' \<and> \<not> b)))
      \<or> (a = Playing \<and> (K = ''Users Gaming'' \<or> (K = ''Bots Gaming'' \<and> b)
                        \<or> (K = ''Humans Gaming'' \<and> \<not> b)))
      \<or> (a = Listening \<and> (K = ''Users Listening'' \<or> (K = ''Bots Listening'' \<and> b)
                        \<or> (K = ''Humans Listening'' \<and> \<not> b)))
      \<or> (a = Watching \<and> (K = ''Users Watching'' \<or> (K = ''Bots Watching'' \<and> b)
                        \<or> (K = ''Humans Watching'' \<and> \<not> b)))
      \<or> (a = Custom \<and> (K = ''Users with Custom Status'' \<or> (K = ''Bots with Custom Status'' \<and> b)
                        \<or> (K = ''Humans with Custom Status'' \<and> \<not> b))))"

definition detailed_labels :: "string set" where
  "detailed_labels =
     {''Mobile Users'',
      ''Users Connected'', ''Bots Connected'', ''Humans Connected'',
      ''Users Online'', ''Bots Online'', ''Humans Online'',
      ''Idle Users'', ''Idle Bots'', ''Idle Humans'',
      ''Users in Do Not Disturb'', ''Bots in Do Not Disturb'', ''Humans in Do Not Disturb'',
      ''Users Offline'', ''Bots Offline'', ''Human Offline'',
      ''Users Online on Mobile'', ''Users Idle on Mobile'',
      ''Users in Do Not Disturb on Mobile'', ''Users Offline on Mobile'',
      ''Users Online on Desktop'', ''Users Idle on Desktop'',
      ''Users in Do Not Disturb on Desktop'', ''Users Offline on Desktop'',
      ''Users Online on Browser'', ''Users Idle on Browser'',
      ''Users in Do Not Disturb on Browser'', ''Users Offline on Browser''}"


definition light_ok :: "tallies \<Rightarrow> bool" where
  "light_ok t =
     ((\<forall>k. k \<notin> {''Unique Users'', ''Bots'', ''Humans''} \<longrightarrow> t_temp_data t k = None) \<and>
      (\<forall>k. k \<notin> {''Unavailable''} \<longrightarrow> t_server_temp_data t k = None) \<and>
      (\<forall>k. k \<notin> {''Total'', ''Members''} \<longrightarrow> t_server_counter t k = None) \<and>
      (\<forall>k. k \<notin> {''Discord Latency'', ''Shards''} \<longrightarrow> t_counter t k = None) \<and>
      t_region_count t = Map.empty \<and> t_verify_count t = Map.empty \<and>
      t_features_count t = Map.empty)"

definition untouched :: "store \<Rightarrow> namespace \<times> namespace \<times> namespace \<times> namespace \<times> namespace \<times> namespace \<times> namespace" where
  "untouched st = (st_audio st, st_adventure st, st_guilds_regions st, st_guild_features st,
                   st_guild_verification st, st_bot st, st_guilds st)"

text \<open>
  A human member with id 7, online on the desktop, with the given activities, and a host
  in detailed mode whose only guild has this member.
\<close>

definition streamer :: "activity_type list \<Rightarrow> member" where
  "streamer acts =
     \<lparr>m_id = 7, m_bot = False, m_on_mobile = False, m_activities = acts,
      m_status = Online, m_mobile_status = Offline, m_desktop_status = Online,
      m_web_status = Offline\<rparr>"

definition streamer_host :: "activity_type list \<Rightarrow> host" where
  "streamer_host acts =
     quiet_host\<lparr>h_detailed := True,
       h_guilds := [\<lparr>g_id = 1, g_unavailable = False, g_member_count = Some 1,
                     g_features = [], g_verification_level = ''low'', g_roles = [],
                     g_large = False, g_chunked = True, g_premium_tier = 0,
                     g_channels = [], g_emojis = [], g_members = [streamer acts],
                     g_me = 99\<rparr>]\<rparr>"



text \<open>
  A host in light mode with everything else switched on and present, and a world in which
  earlier cycles have published.
\<close>

definition light_host :: host where
  "light_host =
     quiet_host\<lparr>h_lightmode := True, h_detailed := True, h_topgg := True,
       h_active_players := [1], h_all_players := [1, 2],
       h_adventure := Some (Inr [(1, [(''rebirths'', JInt 2)])]),
       h_guilds :=
       [\<lparr>g_id = 1, g_unavailable = False, g_member_count = Some 1,
         g_features = [''NEWS''], g_verification_level = ''low'', g_roles = [1, 2],
         g_large = True, g_chunked = False, g_premium_tier = 2,
         g_channels = [TextChannel 5 True False, VoiceChannel 6 [streamer [Playing]]],
         g_emojis = [\<lparr>e_id = 1, e_animated = True\<rparr>],
         g_members = [streamer [Playing]],
         g_me = 7\<rparr>]\<rparr>"

definition used_world :: world where
  "used_world =
     \<lparr>stats = empty_store\<lparr>st_guilds := [''Roles'' \<mapsto> IntV 5, ''Total'' \<mapsto> IntV 9],
                            st_bot := [''Users Gaming'' \<mapsto> IntV 4],
                            st_audio := [''Music Players'' \<mapsto> IntV 3]\<rparr>,
      logged = []\<rparr>"

section \<open>Currency: the sum of the balances, for every batch size\<close>

lemma async_for_try_balances:
  "\<forall>kv \<in> set accounts. \<exists>b. map_of (snd kv) ''balance'' = Some (JInt b) \<Longrightarrow>
   \<exists>sl. async_for_try steps add_balance accounts i sleeps s
          = Inr (s + sum_list (map balance accounts), sl)"
proof (induction accounts arbitrary: i sleeps s)
  case Nil
  then show ?case by simp
next
  case (Cons kv accounts)
  from Cons.prems obtain b where b: "map_of (snd kv) ''balance'' = Some (JInt b)" by auto
  have step: "add_balance kv s = Inr (s + b)" by (simp add: add_balance_def b)
  have bal: "balance kv = b" by (simp add: balance_def b)
  from Cons.prems
  have rest: "\<forall>kv \<in> set accounts. \<exists>b. map_of (snd kv) ''balance'' = Some (JInt b)" by simp
  from Cons.IH [OF rest, of "if i = steps then 1 else i + 1"
      "if i = steps then sleeps + 1 else sleeps" "s + b"]
  obtain sl where "async_for_try steps add_balance accounts (if i = steps then 1 else i + 1)
      (if i = steps then sleeps + 1 else sleeps) (s + b)
      = Inr (s + b + sum_list (map balance accounts), sl)" by blast
  then show ?case
    by (simp add: step bal Let_def add.assoc)
qed

text \<open>
  C6. When the bank returns its accounts and every account has an integer balance, the
  currency collector returns normally and writes, under \<open>Currency In Circulation\<close>, the sum
  of the balances; with any batch size of at least 1 in place of the 50 of the source it
  does exactly the same.
\<close>

theorem currency_sum:
  assumes "0 < steps"
    and "h_bank_accounts h = Inr accounts"
    and "\<forall>kv \<in> set accounts. \<exists>b. map_of (snd kv) ''balance'' = Some (JInt b)"
  shows "write_currency_data_steps steps h w = write_currency_data h w \<and>
         fst (write_currency_data h w) = None \<and>
         st_currency (stats (snd (write_currency_data h w))) ''Currency In Circulation''
           = Some (IntV (sum_list (map balance accounts)))"
proof -
  have run: "write_currency_data_steps n h w =
      (None, w\<lparr>stats := (stats w)\<lparr>st_currency :=
         publish [''Currency In Circulation'' \<mapsto> sum_list (map balance accounts)]
           (st_currency (stats w))\<rparr>\<rparr>)" if n: "0 < n" for n
  proof -
    from async_for_try_balances [OF assms(3), of n 0 0 0]
    obtain sl where "async_for_try n add_balance accounts 0 0 0
        = Inr (sum_list (map balance accounts), sl)"
      by auto
    then show ?thesis
      using n by (simp add: write_currency_data_steps_def assms(2) AsyncIter_try_def)
  qed
  show ?thesis
    using run [OF assms(1)] run [of 50]
    by (simp add: write_currency_data_def publish_def)
qed

theorem currency_sum_witness:
  "(0::nat) < 7 \<and>
   write_currency_data_steps 7
     (quiet_host\<lparr>h_bank_accounts :=
        Inr [(1, [(''balance'', JInt 5)]), (2, [(''name'', JStr ''x''), (''balance'', JInt 7)])]\<rparr>)
     fresh_world
   = write_currency_data
     (quiet_host\<lparr>h_bank_accounts :=
        Inr [(1, [(''balance'', JInt 5)]), (2, [(''name'', JStr ''x''), (''balance'', JInt 7)])]\<rparr>)
     fresh_world \<and>
   st_currency (stats (snd (write_currency_data
     (quiet_host\<lparr>h_bank_accounts :=
        Inr [(1, [(''balance'', JInt 5)]), (2, [(''name'', JStr ''x''), (''balance'', JInt 7)])]\<rparr>)
     fresh_world))) ''Currency In Circulation'' = Some (IntV 12)"
  using currency_sum [of 7
      "quiet_host\<lparr>h_bank_accounts :=
        Inr [(1, [(''balance'', JInt 5)]), (2, [(''name'', JStr ''x''), (''balance'', JInt 7)])]\<rparr>"
      "[(1, [(''balance'', JInt 5)]), (2, [(''name'', JStr ''x''), (''balance'', JInt 7)])]"
      fresh_world]
  by (simp add: balance_def)

section \<open>External vote fetch: which failures give an empty mapping\<close>

text \<open>
  Counterexample to C3 as stated: with a credential configured, a transport error that is
  not a timeout leaves \<open>get_votes\<close> as an exception; the function does raise, and does not
  return the empty mapping.
\<close>

theorem get_votes_raises_counterexample:
  "get_votes (quiet_host\<lparr>h_dbl_tokens := [(''api_key'', ''k'')],
                          h_request := Inl ClientConnectionError\<rparr>)
   = Inl ClientConnectionError"
  by (simp add: get_votes_def api_key_def quiet_host_def suppressed_def)

text \<open>
  C3, amended. \<open>get_votes\<close> returns the empty mapping when no credential is configured,
  when the status is not 200, and when the request or the reading of the body times out
  (the two suppressed exceptions). With a credential, status 200 and a body that parses,
  it returns the parsed body. With a credential, any other exception of the request or of
  the parsing of the body leaves the function.
\<close>

theorem get_votes_cases:
  "(api_key h = [] \<longrightarrow> get_votes h = Inr []) \<and>
   (h_request h = Inr (status, body) \<and> status \<noteq> 200 \<longrightarrow> get_votes h = Inr []) \<and>
   (h_request h = Inl e \<and> suppressed e \<longrightarrow> get_votes h = Inr []) \<and>
   (h_request h = Inr (200, Inl e) \<and> suppressed e \<longrightarrow> get_votes h = Inr []) \<and>
   (api_key h \<noteq> [] \<and> h_request h = Inr (200, Inr data) \<longrightarrow> get_votes h = Inr data) \<and>
   (api_key h \<noteq> [] \<and> h_request h = Inl e \<and> \<not> suppressed e \<longrightarrow> get_votes h = Inl e) \<and>
   (api_key h \<noteq> [] \<and> h_request h = Inr (200, Inl e) \<and> \<not> suppressed e \<longrightarrow> get_votes h = Inl e)"
  by (simp add: get_votes_def Let_def)

theorem get_votes_cases_witness:
  "get_votes quiet_host = Inr [] \<and>
   get_votes (quiet_host\<lparr>h_dbl_tokens := [(''api_key'', ''k'')], h_request := Inr (404, Inr [(''points'', 3)])\<rparr>) = Inr [] \<and>
   get_votes (quiet_host\<lparr>h_dbl_tokens := [(''api_key'', ''k'')], h_request := Inl TimeoutError\<rparr>) = Inr [] \<and>
   get_votes (quiet_host\<lparr>h_dbl_tokens := [(''api_key'', ''k'')], h_request := Inr (200, Inl ServerTimeoutError)\<rparr>) = Inr [] \<and>
   get_votes (quiet_host\<lparr>h_dbl_tokens := [(''api_key'', ''k'')], h_request := Inr (200, Inr [(''points'', 3)])\<rparr>) = Inr [(''points'', 3)] \<and>
   get_votes (quiet_host\<lparr>h_dbl_tokens := [(''api_key'', ''k'')], h_request := Inl ClientConnectionError\<rparr>) = Inl ClientConnectionError \<and>
   get_votes (quiet_host\<lparr>h_dbl_tokens := [(''api_key'', ''k'')], h_request := Inr (200, Inl JSONDecodeError)\<rparr>) = Inl JSONDecodeError"
  using get_votes_cases [of quiet_host]
    get_votes_cases [of "quiet_host\<lparr>h_dbl_tokens := [(''api_key'', ''k'')], h_request := Inr (404, Inr [(''points'', 3)])\<rparr>" 404 "Inr [(''points'', 3)]"]
    get_votes_cases [of "quiet_host\<lparr>h_dbl_tokens := [(''api_key'', ''k'')], h_request := Inl TimeoutError\<rparr>" _ _ TimeoutError]
    get_votes_cases [of "quiet_host\<lparr>h_dbl_tokens := [(''api_key'', ''k'')], h_request := Inr (200, Inl ServerTimeoutError)\<rparr>" _ _ ServerTimeoutError]
    get_votes_cases [of "quiet_host\<lparr>h_dbl_tokens := [(''api_key'', ''k'')], h_request := Inr (200, Inr [(''points'', 3)])\<rparr>" _ _ _ "[(''points'', 3)]"]
    get_votes_cases [of "quiet_host\<lparr>h_dbl_tokens := [(''api_key'', ''k'')], h_request := Inl ClientConnectionError\<rparr>" _ _ ClientConnectionError]
    get_votes_cases [of "quiet_host\<lparr>h_dbl_tokens := [(''api_key'', ''k'')], h_request := Inr (200, Inl JSONDecodeError)\<rparr>" _ _ JSONDecodeError]
  by (simp add: api_key_def quiet_host_def suppressed_def)

section \<open>Audio: inactive players\<close>






section \<open>Initialisation is idempotent\<close>

lemma fold_setdefault_keep:
  "list_all (\<lambda>k. ns k \<noteq> None) ks \<Longrightarrow>
   fold (\<lambda>k ns. if ns k = None then ns(k \<mapsto> v) else ns) ks ns = ns"
  by (induction ks) auto

lemma fold_setdefault_mono:
  "ns k \<noteq> None \<Longrightarrow> fold (\<lambda>k ns. if ns k = None then ns(k \<mapsto> v) else ns) ks ns k \<noteq> None"
  by (induction ks arbitrary: ns) auto

lemma fold_setdefault_all:
  "list_all (\<lambda>k. fold (\<lambda>k ns. if ns k = None then ns(k \<mapsto> v) else ns) ks ns k \<noteq> None) ks"
proof (induction ks arbitrary: ns)
  case Nil
  then show ?case by simp
next
  case (Cons a ks)
  have "fold (\<lambda>k ns. if ns k = None then ns(k \<mapsto> v) else ns) ks
          (if ns a = None then ns(a \<mapsto> v) else ns) a \<noteq> None"
    by (rule fold_setdefault_mono) simp
  with Cons.IH show ?case by simp
qed

lemma init_bot_stats_initialized: "initialized (init_bot_stats b)"
proof -
  have "list_all (\<lambda>k. fold (\<lambda>stat_obj ns.
           if ns stat_obj = None then ns(stat_obj \<mapsto> Namespace Map.empty) else ns)
         bot_stats (case b_stats b of None \<Rightarrow> Map.empty | Some ns \<Rightarrow> ns) k \<noteq> None) bot_stats"
    by (rule fold_setdefault_all)
  then show ?thesis
    by (auto simp: initialized_def init_bot_stats_def Let_def list_all_iff
        split: option.splits)
qed

lemma init_bot_stats_fixed: "initialized b \<Longrightarrow> init_bot_stats b = b"
proof -
  assume a: "initialized b"
  then obtain ns where ns: "b_stats b = Some ns"
    and all: "list_all (\<lambda>k. ns k \<noteq> None) bot_stats"
    and td: "ns ''to_dict'' \<noteq> None"
    by (auto simp: initialized_def split: option.splits)
  from a obtain task ev where t: "b_stats_task b = Some task" and e: "b_stats_ready b = Some ev"
    by (auto simp: initialized_def)
  have "fold (\<lambda>stat_obj ns.
           if ns stat_obj = None then ns(stat_obj \<mapsto> Namespace Map.empty) else ns)
         bot_stats ns = ns"
    using all by (rule fold_setdefault_keep)
  then have "init_bot_stats b = \<lparr>b_stats = Some ns, b_stats_task = Some task, b_stats_ready = Some ev\<rparr>"
    using td by (auto simp: init_bot_stats_def ns t e Let_def)
  moreover have "b = \<lparr>b_stats = Some ns, b_stats_task = Some task, b_stats_ready = Some ev\<rparr>"
    using ns t e by (cases b) simp
  ultimately show ?thesis by simp
qed

text \<open>
  C10. \<open>init_bot_stats\<close> is idempotent: a second call after a first changes nothing; and
  on any bot object that has the attributes (whatever was written into the categories,
  whatever the task handle and the event are) a call returns the object unchanged.
\<close>

theorem init_bot_stats_idempotent:
  "init_bot_stats (init_bot_stats b) = init_bot_stats b \<and>
   (initialized b' \<longrightarrow> init_bot_stats b' = b')"
  using init_bot_stats_fixed [OF init_bot_stats_initialized] init_bot_stats_fixed
  by blast

theorem init_bot_stats_idempotent_witness:
  "initialized used_bot \<and> init_bot_stats used_bot = used_bot"
proof -
  have "initialized used_bot"
    by (simp add: initialized_def used_bot_def bot_stats_def)
  with init_bot_stats_idempotent [of _ used_bot] show ?thesis by simp
qed

section \<open>Scheduler: the ready signal\<close>

lemma cycle_ready:
  "s_ready (update_task_cycle run s) = (s_ready s \<or> fst (run (s_world s)) = None)"
  by (cases "run (s_world s)"; cases "fst (run (s_world s))")
     (auto simp: update_task_cycle_def Let_def)

lemma cycle_set_calls:
  "s_set_calls (update_task_cycle run s) =
     s_set_calls s + (if \<not> s_ready s \<and> fst (run (s_world s)) = None then 1 else 0)"
  by (cases "run (s_world s)"; cases "fst (run (s_world s))")
     (auto simp: update_task_cycle_def Let_def)

lemma update_task_ready:
  "s_ready (update_task runs s) = (s_ready s \<or> True \<in> set (completed runs s))"
  by (induction runs arbitrary: s) (auto simp: cycle_ready)

lemma update_task_set_calls:
  "s_set_calls (update_task runs s) =
     s_set_calls s + (if \<not> s_ready s \<and> True \<in> set (completed runs s) then 1 else 0)"
  by (induction runs arbitrary: s) (auto simp: cycle_ready cycle_set_calls)

lemma completed_take: "completed (take k runs) s = take k (completed runs s)"
proof (induction runs arbitrary: k s)
  case Nil
  then show ?case by simp
next
  case (Cons r runs)
  then show ?case by (cases k) auto
qed

text \<open>
  C2. Let the event be unset when the loop starts, and let cycle \<open>n\<close> (counting from 0) be
  the first whose \<^verbatim>\<open>run_events\<close> returns without an exception. Then after any \<open>k \<le> n\<close>
  cycles the event is not set and \<^verbatim>\<open>set()\<close> has not been called, and after any \<open>k > n\<close>
  cycles the event is set and \<^verbatim>\<open>set()\<close> has been called exactly once: it is set at the end
  of that cycle, and no later cycle sets it again or clears it.
\<close>

theorem stats_ready_set_exactly_once:
  assumes "\<not> s_ready s"
    and "completed runs s = replicate n False @ True # rest"
  shows "(k \<le> n \<longrightarrow> \<not> s_ready (update_task (take k runs) s) \<and>
                  s_set_calls (update_task (take k runs) s) = s_set_calls s) \<and>
         (n < k \<longrightarrow> s_ready (update_task (take k runs) s) \<and>
                  s_set_calls (update_task (take k runs) s) = s_set_calls s + 1)"
proof (intro conjI impI)
  assume k: "k \<le> n"
  have "take k (completed runs s) = replicate k False"
    using k by (simp add: assms(2) min_def)
  then have none: "True \<notin> set (completed (take k runs) s)"
    by (simp add: completed_take)
  show "\<not> s_ready (update_task (take k runs) s)"
    using assms(1) none by (simp add: update_task_ready)
  show "s_set_calls (update_task (take k runs) s) = s_set_calls s"
    using none by (simp add: update_task_set_calls)
next
  assume k: "n < k"
  then obtain j where j: "k = Suc (n + j)" using less_iff_Suc_add by auto
  have "take k (completed runs s) = replicate n False @ True # take j rest"
    by (simp add: assms(2) j)
  then have some: "True \<in> set (completed (take k runs) s)"
    by (simp add: completed_take)
  show "s_ready (update_task (take k runs) s)"
    using some by (simp add: update_task_ready)
  show "s_set_calls (update_task (take k runs) s) = s_set_calls s + 1"
    using some assms(1) by (simp add: update_task_set_calls)
qed

theorem stats_ready_set_exactly_once_witness:
  "\<not> s_ready fresh_sched \<and>
   completed [failing_join, run_events quiet_host, failing_join, run_events quiet_host]
     fresh_sched = replicate 1 False @ True # [False, True] \<and>
   \<not> s_ready (update_task
        (take 1 [failing_join, run_events quiet_host, failing_join, run_events quiet_host])
        fresh_sched) \<and>
   s_ready (update_task
        (take 2 [failing_join, run_events quiet_host, failing_join, run_events quiet_host])
        fresh_sched) \<and>
   s_set_calls (update_task
        (take 2 [failing_join, run_events quiet_host, failing_join, run_events quiet_host])
        fresh_sched) = 1 \<and>
   s_set_calls (update_task
        (take 4 [failing_join, run_events quiet_host, failing_join, run_events quiet_host])
        fresh_sched) = 1"
proof -
  have c: "completed [failing_join, run_events quiet_host, failing_join, run_events quiet_host]
     fresh_sched = replicate 1 False @ True # [False, True]"
    by (simp add: failing_join_def run_events_def update_task_cycle_def fresh_sched_def
        split: prod.splits)
  have r: "\<not> s_ready fresh_sched" "s_set_calls fresh_sched = 0"
    by (simp_all add: fresh_sched_def)
  from stats_ready_set_exactly_once [OF r(1) c, of 1]
    stats_ready_set_exactly_once [OF r(1) c, of 2]
    stats_ready_set_exactly_once [OF r(1) c, of 4] r c
  show ?thesis
    by (simp del: take_Cons_numeral take_Suc_Cons update_task.simps completed.simps)
qed

section \<open>Adventure: totals and percentages\<close>





section \<open>Faults of the collectors\<close>

text \<open>
  Counterexample to C1 as stated: a bank account without a balance makes the currency
  collector raise \<open>KeyError\<close>; the exception leaves the collector function, and the cycle
  logs nothing. An infinite shard latency leaves the shard-latency collector in the same
  way.
\<close>

theorem currency_fault_escapes_counterexample:
  "fst (write_currency_data malformed_bank_host fresh_world) = Some KeyError \<and>
   logged (snd (run_events malformed_bank_host fresh_world)) = [] \<and>
   fst (write_shards_data infinite_shard_host fresh_world) = Some OverflowError"
  by (simp add: malformed_bank_host_def infinite_shard_host_def py_int_def quiet_host_def write_currency_data_def
      write_currency_data_steps_def AsyncIter_try_def add_balance_def run_events_def
      write_bot_data_def bot_tallies_def discord_latency_def py_round_def py_mul_def
      set_server_def set_counter_def empty_tallies_def flatten_tallies_def
      write_shards_data_def write_audio_data_def audio_counter_def normalise_def set_audio_def
      write_adventure_data_def fresh_world_def Let_def)

lemma write_bot_data_returns: "fst (write_bot_data h w) = None"
  by (simp add: write_bot_data_def split: sum.splits)

lemma write_audio_data_returns: "fst (write_audio_data h w) = None"
  by (simp add: write_audio_data_def split: prod.splits option.splits)

lemma write_adventure_data_returns: "fst (write_adventure_data h w) = None"
  by (simp add: write_adventure_data_def split: prod.splits option.splits sum.splits)

lemma run_events_returns: "fst (run_events h w) = None"
  by (simp add: run_events_def split: prod.splits)

lemma write_currency_data_fault:
  "fst (write_currency_data h w) = Some e \<Longrightarrow> snd (write_currency_data h w) = w"
  by (auto simp: write_currency_data_def write_currency_data_steps_def
      split: sum.splits prod.splits)

text \<open>
  C1, amended. No exception leaves the bot, audio and adventure collectors, nor
  \<open>run_events\<close>, whose join keeps the exceptions of the two collectors that have no handler.
  A fault in the \<^verbatim>\<open>try\<close> body of the bot collector, or in the reading and tallying of the
  adventure collector, is logged and the collector writes nothing; a fault in the audio
  collector is logged. A fault of the currency collector leaves the collector, which has
  written nothing.
\<close>

theorem collector_faults:
  "fst (write_bot_data h w) = None \<and>
   fst (write_audio_data h w) = None \<and>
   fst (write_adventure_data h w) = None \<and>
   fst (run_events h w) = None \<and>
   (bot_tallies h = Inl e \<longrightarrow>
      snd (write_bot_data h w) = log_exception ''Exception in write_bot_data'' w) \<and>
   (\<not> h_lightmode h \<and> fst (write_audio_data_loop (audio_counter h) w) = Some e \<longrightarrow>
      logged (snd (write_audio_data h w)) = logged w @ [''Exception in write_audio_data'']) \<and>
   (\<not> h_lightmode h \<and> h_adventure h = Some (Inr raw_accounts) \<and>
      adventure_count raw_accounts = Inl e \<longrightarrow>
      snd (write_adventure_data h w) = log_exception ''Exception in write_adventure_data'' w) \<and>
   (\<not> h_lightmode h \<and> h_adventure h = Some (Inl e) \<longrightarrow>
      snd (write_adventure_data h w) = log_exception ''Exception in write_adventure_data'' w) \<and>
   (fst (write_currency_data h w) = Some e \<longrightarrow> snd (write_currency_data h w) = w)"
proof (intro conjI impI)
  show "fst (write_bot_data h w) = None" by (rule write_bot_data_returns)
  show "fst (write_audio_data h w) = None" by (rule write_audio_data_returns)
  show "fst (write_adventure_data h w) = None" by (rule write_adventure_data_returns)
  show "fst (run_events h w) = None" by (rule run_events_returns)
next
  assume "bot_tallies h = Inl e"
  then show "snd (write_bot_data h w) = log_exception ''Exception in write_bot_data'' w"
    by (simp add: write_bot_data_def)
next
  assume a: "\<not> h_lightmode h \<and> fst (write_audio_data_loop (audio_counter h) w) = Some e"
  obtain r w' where rw: "write_audio_data_loop (audio_counter h) w = (r, w')"
    by (cases "write_audio_data_loop (audio_counter h) w")
  have keep: "logged (snd (write_audio_data_loop xs v)) = logged v" for xs v
    by (induction xs arbitrary: v) (auto simp: set_audio_def split: sum.splits)
  from keep [of "audio_counter h" w] rw have "logged w' = logged w" by simp
  with a rw
  show "logged (snd (write_audio_data h w)) = logged w @ [''Exception in write_audio_data'']"
    by (simp add: write_audio_data_def log_exception_def)
next
  assume "\<not> h_lightmode h \<and> h_adventure h = Some (Inr raw_accounts) \<and>
      adventure_count raw_accounts = Inl e"
  then show "snd (write_adventure_data h w)
      = log_exception ''Exception in write_adventure_data'' w"
    by (simp add: write_adventure_data_def)
next
  assume "\<not> h_lightmode h \<and> h_adventure h = Some (Inl e)"
  then show "snd (write_adventure_data h w)
      = log_exception ''Exception in write_adventure_data'' w"
    by (simp add: write_adventure_data_def)
next
  assume "fst (write_currency_data h w) = Some e"
  then show "snd (write_currency_data h w) = w" by (rule write_currency_data_fault)
qed

theorem collector_faults_witness:
  "fst (run_events malformed_bank_host fresh_world) = None \<and>
   snd (write_bot_data nan_latency_host fresh_world)
     = log_exception ''Exception in write_bot_data'' fresh_world \<and>
   logged (snd (write_audio_data malformed_audio_host fresh_world))
     = [''Exception in write_audio_data''] \<and>
   snd (write_adventure_data malformed_adventure_host fresh_world)
     = log_exception ''Exception in write_adventure_data'' fresh_world \<and>
   snd (write_adventure_data failing_adventure_host fresh_world)
     = log_exception ''Exception in write_adventure_data'' fresh_world \<and>
   snd (write_currency_data malformed_bank_host fresh_world) = fresh_world"
proof -
  have b: "bot_tallies nan_latency_host = Inl ValueError"
    by (simp add: nan_latency_host_def quiet_host_def bot_tallies_def discord_latency_def
        py_round_def py_mul_def)
  have au: "\<not> h_lightmode malformed_audio_host \<and>
      fst (write_audio_data_loop (audio_counter malformed_audio_host) fresh_world)
        = Some ValueError"
    by (simp add: malformed_audio_host_def quiet_host_def audio_counter_def
        mart_tools_keys_def normalise_def int_of_digits_def is_digit_def)
  have ad: "\<not> h_lightmode malformed_adventure_host \<and>
      h_adventure malformed_adventure_host = Some (Inr [(1, [(''adventures'', JInt 3)])]) \<and>
      adventure_count [(1, [(''adventures'', JInt 3)])] = Inl AttributeError"
    by (simp add: malformed_adventure_host_def quiet_host_def adventure_count_def
        AsyncIter_try_def normalise_account_def backfill_def backfill_item_def
        collect_item_def)
  have fa: "\<not> h_lightmode failing_adventure_host \<and>
      h_adventure failing_adventure_host = Some (Inl HostError)"
    by (simp add: failing_adventure_host_def quiet_host_def)
  have cu: "fst (write_currency_data malformed_bank_host fresh_world) = Some KeyError"
    by (simp add: malformed_bank_host_def quiet_host_def write_currency_data_def
        write_currency_data_steps_def AsyncIter_try_def add_balance_def)
  from collector_faults [of malformed_bank_host fresh_world KeyError]
    collector_faults [of nan_latency_host fresh_world ValueError]
    collector_faults [of malformed_audio_host fresh_world ValueError]
    collector_faults [of malformed_adventure_host fresh_world AttributeError
      "[(1, [(''adventures'', JInt 3)])]"]
    collector_faults [of failing_adventure_host fresh_world HostError]
    b au ad fa cu
  show ?thesis
    by (simp add: fresh_world_def)
qed

section \<open>Members and their activities\<close>

lemma async_for_fold: "fst (async_for steps body xs i sleeps s) = fold body xs s"
  by (induction xs arbitrary: i sleeps s) auto

lemma tt_add_temp:
  "t_temp_data (add_temp k i t) K
     = (if K = k then Some (insert i (temp_ids t k)) else t_temp_data t K)"
  by (simp add: add_temp_def idset_add_def temp_ids_def)


lemma tt_tally_split:
  "u \<noteq> b \<Longrightarrow> u \<noteq> h \<Longrightarrow>
   t_temp_data (tally_split u b h m t) K
     = (if K = u \<or> (K = b \<and> m_bot m) \<or> (K = h \<and> \<not> m_bot m)
        then Some (insert (m_id m) (temp_ids t K)) else t_temp_data t K)"
  by (auto simp: tally_split_def tt_add_temp temp_ids_def)


lemma tt_activity_step:
  "t_temp_data (fst (activity_step m a ts)) K
     = (if touches (m_bot m) a K then Some (insert (m_id m) (temp_ids (fst ts) K))
        else t_temp_data (fst ts) K)"
  by (cases a) (auto simp: activity_step_def Let_def tt_tally_split touches_def temp_ids_def)


lemma tt_fold_activity_step:
  "t_temp_data (fst (fold (activity_step m) acts ts)) K
     = (if \<exists>a \<in> set acts. touches (m_bot m) a K
        then Some (insert (m_id m) (temp_ids (fst ts) K))
        else t_temp_data (fst ts) K)"
proof (induction acts arbitrary: ts)
  case Nil
  then show ?case by simp
next
  case (Cons a acts)
  have ids: "temp_ids (fst (activity_step m a ts)) K
      = (if touches (m_bot m) a K then insert (m_id m) (temp_ids (fst ts) K)
         else temp_ids (fst ts) K)"
    using tt_activity_step [of m a ts K] by (simp add: temp_ids_def)
  show ?case
    by (simp add: Cons.IH [of "activity_step m a ts"] tt_activity_step ids)
qed


lemma tt_presence_step:
  "K \<notin> detailed_labels \<Longrightarrow> t_temp_data (presence_step m t) K = t_temp_data t K"
  by (simp add: presence_step_def Let_def tt_tally_split detailed_labels_def)


lemma tt_mobile_step:
  "K \<notin> detailed_labels \<Longrightarrow> t_temp_data (mobile_step m t) K = t_temp_data t K"
  by (simp add: mobile_step_def tt_add_temp detailed_labels_def)


lemma tt_desktop_step:
  "K \<notin> detailed_labels \<Longrightarrow> t_temp_data (desktop_step m t) K = t_temp_data t K"
  by (simp add: desktop_step_def tt_add_temp detailed_labels_def)


lemma tt_web_step:
  "K \<notin> detailed_labels \<Longrightarrow> t_temp_data (web_step m t) K = t_temp_data t K"
  by (simp add: web_step_def tt_add_temp detailed_labels_def)


lemma tt_member_detailed:
  assumes "K \<notin> detailed_labels"
  shows "t_temp_data (member_detailed m t) K
     = (if \<exists>a \<in> set (m_activities m). touches (m_bot m) a K
        then Some (insert (m_id m) (temp_ids t K))
        else t_temp_data t K)"
proof -
  define t1 where "t1 = (if m_on_mobile m then add_temp ''Mobile Users'' (m_id m) else id) t"
  define ts where "ts = fold (activity_step m) (m_activities m) (t1, False)"
  have K1: "t_temp_data t1 K = t_temp_data t K"
    using assms by (simp add: t1_def tt_add_temp detailed_labels_def)
  then have I1: "temp_ids t1 K = temp_ids t K" by (simp add: temp_ids_def)
  have ts: "t_temp_data (fst ts) K
     = (if \<exists>a \<in> set (m_activities m). touches (m_bot m) a K
        then Some (insert (m_id m) (temp_ids t K))
        else t_temp_data t K)"
    by (simp add: ts_def tt_fold_activity_step K1 I1)
  have "member_detailed m t
      = web_step m (desktop_step m (mobile_step m
          ((if \<not> snd ts then presence_step m else id) (fst ts))))"
    by (simp add: member_detailed_def Let_def async_for_fold t1_def ts_def
        split: prod.splits)
  then show ?thesis
    using assms
    by (simp add: tt_web_step tt_desktop_step tt_mobile_step tt_presence_step ts)
qed


lemma tt_member_step_detailed:
  assumes "K \<notin> detailed_labels" and "K \<notin> {''Unique Users'', ''Bots'', ''Humans''}"
  shows "t_temp_data (member_step True m t) K
     = (if \<exists>a \<in> set (m_activities m). touches (m_bot m) a K
        then Some (insert (m_id m) (temp_ids t K))
        else t_temp_data t K)"
  using assms
  by (simp add: member_step_def Let_def tt_member_detailed tt_add_temp temp_ids_def)

lemma async_for_sleeps:
  "0 < steps \<Longrightarrow> i \<le> steps \<Longrightarrow>
   snd (async_for steps body xs i sleeps s) = sleeps + (length xs + i - 1) div steps"
proof (induction xs arbitrary: i sleeps s)
  case Nil
  then show ?case by (cases "i = steps") simp_all
next
  case (Cons x xs)
  show ?case
  proof (cases "i = steps")
    case True
    with Cons.prems have "snd (async_for steps body xs 1 (sleeps + 1) (body x s))
        = sleeps + 1 + (length xs + 1 - 1) div steps"
      by (intro Cons.IH) simp_all
    with True Cons.prems show ?thesis by simp
  next
    case False
    with Cons.prems have "snd (async_for steps body xs (i + 1) sleeps (body x s))
        = sleeps + (length xs + (i + 1) - 1) div steps"
      by (intro Cons.IH) simp_all
    with False show ?thesis by simp
  qed
qed

text \<open>
  Counterexample to C9 as stated: a member whose sixth activity is the only streaming one
  is counted under \<open>Users Streaming\<close>; with the first five activities alone the bucket
  does not exist. The sixth activity does affect a bucket.
\<close>

theorem sixth_activity_counterexample:
  "st_bot (stats (snd (write_bot_data
       (streamer_host [Custom, Custom, Custom, Custom, Custom, Streaming]) fresh_world)))
     ''Users Streaming'' = Some (IntV 1) \<and>
   st_bot (stats (snd (write_bot_data
       (streamer_host (take 5 [Custom, Custom, Custom, Custom, Custom, Streaming])) fresh_world)))
     ''Users Streaming'' = None"
  by (simp add: write_bot_data_def bot_tallies_def streamer_host_def streamer_def quiet_host_def
      empty_tallies_def set_server_def set_counter_def discord_latency_def py_round_def
      py_mul_def guild_step_def guild_stats_def inc_server_def counter_add_def counter_get_def
      guild_histograms_def inc_verify_def inc_features_def get_or_unknown_def verify_def
      premium_step_def member_step_def member_detailed_def activity_step_def tally_split_def
      presence_step_def mobile_step_def desktop_step_def web_step_def add_temp_def
      idset_add_def flatten_tallies_def flatten_def publish_tallies_def publish_def
      fresh_world_def empty_store_def Let_def)

text \<open>
  C9, amended. In detailed mode every activity of a member is classified, not only the
  first five: the member is in a streaming, gaming, listening, watching or custom-status
  bucket exactly when one of the member's activities, at any position, is of that type
  (or the member was in the bucket before), in the bots' bucket when the member is a bot
  and in the humans' bucket otherwise. The 5 is the batch of the iteration: the loop over
  \<open>n\<close> activities sleeps \<open>(n - 1) div 5\<close> times.
\<close>

theorem every_activity_classified:
  "t_temp_data (member_step True m t) ''Users Streaming''
     = bucket_after (Streaming \<in> set (m_activities m)) m t ''Users Streaming'' \<and>
   t_temp_data (member_step True m t) ''Bots Streaming''
     = bucket_after (Streaming \<in> set (m_activities m) \<and> m_bot m) m t ''Bots Streaming'' \<and>
   t_temp_data (member_step True m t) ''Humans Streaming''
     = bucket_after (Streaming \<in> set (m_activities m) \<and> \<not> m_bot m) m t ''Humans Streaming'' \<and>
   t_temp_data (member_step True m t) ''Users Gaming''
     = bucket_after (Playing \<in> set (m_activities m)) m t ''Users Gaming'' \<and>
   t_temp_data (member_step True m t) ''Bots Gaming''
     = bucket_after (Playing \<in> set (m_activities m) \<and> m_bot m) m t ''Bots Gaming'' \<and>
   t_temp_data (member_step True m t) ''Humans Gaming''
     = bucket_after (Playing \<in> set (m_activities m) \<and> \<not> m_bot m) m t ''Humans Gaming'' \<and>
   t_temp_data (member_step True m t) ''Users Listening''
     = bucket_after (Listening \<in> set (m_activities m)) m t ''Users Listening'' \<and>
   t_temp_data (member_step True m t) ''Bots Listening''
     = bucket_after (Listening \<in> set (m_activities m) \<and> m_bot m) m t ''Bots Listening'' \<and>
   t_temp_data (member_step True m t) ''Humans Listening''
     = bucket_after (Listening \<in> set (m_activities m) \<and> \<not> m_bot m) m t ''Humans Listening'' \<and>
   t_temp_data (member_step True m t) ''Users Watching''
     = bucket_after (Watching \<in> set (m_activities m)) m t ''Users Watching'' \<and>
   t_temp_data (member_step True m t) ''Bots Watching''
     = bucket_after (Watching \<in> set (m_activities m) \<and> m_bot m) m t ''Bots Watching'' \<and>
   t_temp_data (member_step True m t) ''Humans Watching''
     = bucket_after (Watching \<in> set (m_activities m) \<and> \<not> m_bot m) m t ''Humans Watching'' \<and>
   t_temp_data (member_step True m t) ''Users with Custom Status''
     = bucket_after (Custom \<in> set (m_activities m)) m t ''Users with Custom Status'' \<and>
   t_temp_data (member_step True m t) ''Bots with Custom Status''
     = bucket_after (Custom \<in> set (m_activities m) \<and> m_bot m) m t ''Bots with Custom Status'' \<and>
   t_temp_data (member_step True m t) ''Humans with Custom Status''
     = bucket_after (Custom \<in> set (m_activities m) \<and> \<not> m_bot m) m t
         ''Humans with Custom Status'' \<and>
   snd (async_for 5 (activity_step m) (m_activities m) 0 0 (t', False))
     = (length (m_activities m) - 1) div 5"
proof -
  have bucket: "t_temp_data (member_step True m t) K = bucket_after hit m t K"
    if "K \<notin> detailed_labels" "K \<notin> {''Unique Users'', ''Bots'', ''Humans''}"
      and "(\<exists>a \<in> set (m_activities m). touches (m_bot m) a K) = hit" for K hit
    using tt_member_step_detailed [OF that(1, 2), of m t] that(3)
    by (simp add: bucket_after_def)
  have sleeps: "snd (async_for 5 (activity_step m) (m_activities m) 0 0 (t', False))
     = (length (m_activities m) - 1) div 5"
    by (simp add: async_for_sleeps)
  show ?thesis
    apply (intro conjI)
                   apply (rule bucket; simp add: detailed_labels_def touches_def)+
    apply (rule sleeps)
    done
qed

theorem every_activity_classified_witness:
  "t_temp_data (member_step True
       (streamer [Custom, Custom, Custom, Custom, Custom, Streaming]) empty_tallies)
     ''Users Streaming'' = Some {7} \<and>
   t_temp_data (member_step True
       (streamer [Custom, Custom, Custom, Custom, Custom, Streaming]) empty_tallies)
     ''Humans Streaming'' = Some {7} \<and>
   t_temp_data (member_step True
       (streamer [Custom, Custom, Custom, Custom, Custom, Streaming]) empty_tallies)
     ''Bots Streaming'' = None \<and>
   t_temp_data (member_step True
       (streamer [Custom, Custom, Custom, Custom, Custom, Streaming]) empty_tallies)
     ''Users Gaming'' = None \<and>
   snd (async_for 5
       (activity_step (streamer [Custom, Custom, Custom, Custom, Custom, Streaming]))
       (m_activities (streamer [Custom, Custom, Custom, Custom, Custom, Streaming]))
       0 0 (empty_tallies, False)) = 1"
  using every_activity_classified
    [of "streamer [Custom, Custom, Custom, Custom, Custom, Streaming]" empty_tallies
      empty_tallies]
  by (simp add: bucket_after_def streamer_def temp_ids_def empty_tallies_def)

section \<open>Unique users and member counts\<close>
































section \<open>Light mode\<close>

lemma light_ok_add_unique: "light_ok t \<Longrightarrow> light_ok (add_temp ''Unique Users'' i t)"
  by (simp add: light_ok_def add_temp_def idset_add_def)

lemma light_ok_add_bots: "light_ok t \<Longrightarrow> light_ok (add_temp ''Bots'' i t)"
  by (simp add: light_ok_def add_temp_def idset_add_def)

lemma light_ok_add_humans: "light_ok t \<Longrightarrow> light_ok (add_temp ''Humans'' i t)"
  by (simp add: light_ok_def add_temp_def idset_add_def)

lemma light_ok_add_unavailable:
  "light_ok t \<Longrightarrow> light_ok (add_server_temp ''Unavailable'' i t)"
  by (simp add: light_ok_def add_server_temp_def idset_add_def)

lemma light_ok_inc_members: "light_ok t \<Longrightarrow> light_ok (inc_server ''Members'' n t)"
  by (simp add: light_ok_def inc_server_def counter_add_def)

lemma light_ok_set_latency: "light_ok t \<Longrightarrow> light_ok (set_counter ''Discord Latency'' n t)"
  by (simp add: light_ok_def set_counter_def)

lemma light_ok_set_shards: "light_ok t \<Longrightarrow> light_ok (set_counter ''Shards'' n t)"
  by (simp add: light_ok_def set_counter_def)

lemma light_ok_start: "light_ok (set_server ''Total'' n empty_tallies)"
  by (simp add: light_ok_def set_server_def empty_tallies_def)

lemma light_ok_member_step: "light_ok t \<Longrightarrow> light_ok (member_step False m t)"
  by (simp add: member_step_def Let_def light_ok_add_unique light_ok_add_bots
      light_ok_add_humans)

lemma light_ok_fold_member_step:
  "light_ok t \<Longrightarrow> light_ok (fold (member_step False) ms t)"
  by (induction ms arbitrary: t) (simp_all add: light_ok_member_step)

lemma light_ok_guild_step: "light_ok t \<Longrightarrow> light_ok (guild_step True False g t)"
  by (simp add: guild_step_def Let_def async_for_fold light_ok_add_unavailable
      light_ok_fold_member_step light_ok_inc_members)

lemma light_ok_fold_guild_step:
  "light_ok t \<Longrightarrow> light_ok (fold (guild_step True False) gs t)"
  by (induction gs arbitrary: t) (simp_all add: light_ok_guild_step)

lemma light_ok_discord_latency:
  "discord_latency x t = Inr t' \<Longrightarrow> light_ok t \<Longrightarrow> light_ok t'"
  by (cases "py_round (py_mul x 1000)")
     (auto simp: discord_latency_def light_ok_set_latency split: if_splits)

lemma light_ok_flatten:
  assumes "light_ok t"
  shows "(\<forall>k. k \<notin> {''Discord Latency'', ''Shards'', ''Unique Users'', ''Bots'', ''Humans''}
              \<longrightarrow> t_counter (flatten_tallies t) k = None) \<and>
         (\<forall>k. k \<notin> {''Total'', ''Members'', ''Unavailable''}
              \<longrightarrow> t_server_counter (flatten_tallies t) k = None) \<and>
         t_region_count (flatten_tallies t) = Map.empty \<and>
         t_verify_count (flatten_tallies t) = Map.empty \<and>
         t_features_count (flatten_tallies t) = Map.empty"
  using assms by (simp add: light_ok_def flatten_tallies_def flatten_def)

lemma light_ok_bot_tallies:
  assumes "h_lightmode h" and "bot_tallies h = Inr t"
  shows "(\<forall>k. k \<notin> {''Discord Latency'', ''Shards'', ''Unique Users'', ''Bots'', ''Humans''}
              \<longrightarrow> t_counter t k = None) \<and>
         (\<forall>k. k \<notin> {''Total'', ''Members'', ''Unavailable''} \<longrightarrow> t_server_counter t k = None) \<and>
         t_region_count t = Map.empty \<and> t_verify_count t = Map.empty \<and>
         t_features_count t = Map.empty"
proof -
  from assms have "\<exists>t2. discord_latency (h_latency h)
           (set_server ''Total'' (int (length (h_guilds h))) empty_tallies) = Inr t2 \<and>
      t = flatten_tallies (fold (guild_step True False) (h_guilds h)
           (set_counter ''Shards'' (h_shard_count h) t2))"
    by (simp add: bot_tallies_def Let_def split: sum.splits)
  then obtain t2 where
    t2: "discord_latency (h_latency h)
           (set_server ''Total'' (int (length (h_guilds h))) empty_tallies) = Inr t2"
    and t: "t = flatten_tallies (fold (guild_step True False) (h_guilds h)
           (set_counter ''Shards'' (h_shard_count h) t2))"
    by blast
  have "light_ok (fold (guild_step True False) (h_guilds h)
           (set_counter ''Shards'' (h_shard_count h) t2))"
    by (intro light_ok_fold_guild_step light_ok_set_shards
        light_ok_discord_latency [OF t2] light_ok_start)
  then show ?thesis
    unfolding t by (rule light_ok_flatten)
qed

lemma publish_outside: "c k = None \<Longrightarrow> publish c ns k = ns k"
  by (simp add: publish_def)

lemma publish_empty: "publish Map.empty ns = ns"
  by (simp add: publish_def)

lemma write_shards_data_loop_frame:
  "untouched (stats (snd (write_shards_data_loop xs w))) = untouched (stats w)"
proof (induction xs arbitrary: w)
  case Nil
  then show ?case by simp
next
  case (Cons x xs)
  obtain index latency where x: "x = (index, latency)" by (cases x)
  show ?case
  proof (cases "py_int (py_mul latency 1000)")
    case (Inl e)
    then show ?thesis by (simp add: x)
  next
    case (Inr ms)
    then show ?thesis
      using Cons.IH [of "set_shard (string_of_nat (index + 1)) (IntV ms) w"]
      by (simp add: x set_shard_def untouched_def)
  qed
qed

lemma write_currency_data_frame:
  "untouched (stats (snd (write_currency_data h w))) = untouched (stats w)"
  by (simp add: write_currency_data_def write_currency_data_steps_def untouched_def
      split: sum.splits prod.splits)

lemma run_events_light:
  assumes "h_lightmode h"
  shows "untouched (stats (snd (run_events h w)))
           = untouched (stats (snd (write_bot_data h w)))"
proof -
  have audio: "write_audio_data h w' = (None, w')" for w'
    using assms by (simp add: write_audio_data_def)
  have adv: "write_adventure_data h w' = (None, w')" for w'
    using assms by (simp add: write_adventure_data_def split: option.splits)
  have "snd (run_events h w)
      = snd (write_shards_data h (snd (write_currency_data h (snd (write_bot_data h w)))))"
    by (simp add: run_events_def audio adv split: prod.splits)
  then show ?thesis
    by (simp add: write_shards_data_def write_shards_data_loop_frame write_currency_data_frame)
qed

text \<open>
  Counterexample to C8 as stated: in light mode a cycle also publishes the guild total,
  the member total, the shard count and the gateway latency, which are none of the
  unique-user, bot and human counts, the shard latencies and the currency.
\<close>

theorem light_mode_other_labels_counterexample:
  "st_guilds (stats (snd (run_events light_host fresh_world))) ''Total'' = Some (IntV 1) \<and>
   st_guilds (stats (snd (run_events light_host fresh_world))) ''Members'' = Some (IntV 1) \<and>
   st_bot (stats (snd (run_events light_host fresh_world))) ''Shards'' = Some (IntV 1) \<and>
   st_bot (stats (snd (run_events light_host fresh_world))) ''Discord Latency'' = Some (IntV 0)"
  by (simp add: run_events_def write_bot_data_def bot_tallies_def light_host_def streamer_def
      quiet_host_def member_count_def empty_tallies_def set_server_def set_counter_def discord_latency_def
      py_round_def py_mul_def guild_step_def inc_server_def counter_add_def counter_get_def
      member_step_def add_temp_def idset_add_def flatten_tallies_def flatten_def
      publish_tallies_def publish_def fresh_world_def empty_store_def Let_def
      write_currency_data_def write_currency_data_steps_def AsyncIter_try_def
      write_shards_data_def write_audio_data_def write_adventure_data_def)

text \<open>
  C8, amended. In light mode a cycle leaves the audio, adventure, region, feature and
  verification categories as they were; in the bot category it can change only
  \<open>Discord Latency\<close>, \<open>Shards\<close>, \<open>Unique Users\<close>, \<open>Bots\<close> and \<open>Humans\<close>; in the guild
  category only \<open>Total\<close>, \<open>Members\<close> and \<open>Unavailable\<close>. Every other label of these two
  categories (channels, roles, boosts, emojis, voice, presence, activities) is untouched.
\<close>

theorem light_mode_frame:
  assumes "h_lightmode h"
  shows "st_audio (stats (snd (run_events h w))) = st_audio (stats w) \<and>
         st_adventure (stats (snd (run_events h w))) = st_adventure (stats w) \<and>
         st_guilds_regions (stats (snd (run_events h w))) = st_guilds_regions (stats w) \<and>
         st_guild_features (stats (snd (run_events h w))) = st_guild_features (stats w) \<and>
         st_guild_verification (stats (snd (run_events h w)))
           = st_guild_verification (stats w) \<and>
         (k \<notin> {''Discord Latency'', ''Shards'', ''Unique Users'', ''Bots'', ''Humans''} \<longrightarrow>
            st_bot (stats (snd (run_events h w))) k = st_bot (stats w) k) \<and>
         (k \<notin> {''Total'', ''Members'', ''Unavailable''} \<longrightarrow>
            st_guilds (stats (snd (run_events h w))) k = st_guilds (stats w) k)"
proof (cases "bot_tallies h")
  case (Inl e)
  then have "snd (write_bot_data h w) = log_exception ''Exception in write_bot_data'' w"
    by (simp add: write_bot_data_def)
  then have "untouched (stats (snd (run_events h w))) = untouched (stats w)"
    by (simp add: run_events_light [OF assms] log_exception_def)
  then show ?thesis by (simp add: untouched_def)
next
  case (Inr t)
  from light_ok_bot_tallies [OF assms Inr]
  have c: "\<And>k. k \<notin> {''Discord Latency'', ''Shards'', ''Unique Users'', ''Bots'', ''Humans''}
              \<Longrightarrow> t_counter t k = None"
    and sc: "\<And>k. k \<notin> {''Total'', ''Members'', ''Unavailable''} \<Longrightarrow> t_server_counter t k = None"
    and e: "t_region_count t = Map.empty" "t_verify_count t = Map.empty"
      "t_features_count t = Map.empty"
    by blast+
  have "untouched (stats (snd (run_events h w))) = untouched (publish_tallies t (stats w))"
    by (simp add: run_events_light [OF assms] write_bot_data_def Inr)
  then have u: "st_audio (stats (snd (run_events h w))) = st_audio (stats w)"
    "st_adventure (stats (snd (run_events h w))) = st_adventure (stats w)"
    "st_guilds_regions (stats (snd (run_events h w))) = st_guilds_regions (stats w)"
    "st_guild_features (stats (snd (run_events h w))) = st_guild_features (stats w)"
    "st_guild_verification (stats (snd (run_events h w))) = st_guild_verification (stats w)"
    "st_bot (stats (snd (run_events h w))) = publish (t_counter t) (st_bot (stats w))"
    "st_guilds (stats (snd (run_events h w))) = publish (t_server_counter t) (st_guilds (stats w))"
    by (simp_all add: untouched_def publish_tallies_def e publish_empty)
  show ?thesis
  proof (intro conjI impI)
    assume "k \<notin> {''Discord Latency'', ''Shards'', ''Unique Users'', ''Bots'', ''Humans''}"
    then have "t_counter t k = None" by (rule c)
    then show "st_bot (stats (snd (run_events h w))) k = st_bot (stats w) k"
      by (simp add: u publish_outside)
  next
    assume "k \<notin> {''Total'', ''Members'', ''Unavailable''}"
    then have "t_server_counter t k = None" by (rule sc)
    then show "st_guilds (stats (snd (run_events h w))) k = st_guilds (stats w) k"
      by (simp add: u publish_outside)
  qed (rule u)+
qed

theorem light_mode_frame_witness:
  "h_lightmode light_host \<and>
   st_audio (stats (snd (run_events light_host used_world))) = st_audio (stats used_world) \<and>
   st_guild_features (stats (snd (run_events light_host used_world))) = Map.empty \<and>
   st_bot (stats (snd (run_events light_host used_world))) ''Users Gaming'' = Some (IntV 4) \<and>
   st_guilds (stats (snd (run_events light_host used_world))) ''Roles'' = Some (IntV 5)"
proof -
  have l: "h_lightmode light_host" by (simp add: light_host_def quiet_host_def)
  from light_mode_frame [OF l, of used_world "''Users Gaming''"]
    light_mode_frame [OF l, of used_world "''Roles''"] l
  show ?thesis
    by (simp add: used_world_def empty_store_def)
qed

end
